theory Spec2Isabelle
  imports Main
begin

section \<open>AWS AppConfig environments: \<^verbatim>\<open>lib/environment.ts\<close>\<close>

text \<open>
  The module declares the \<^verbatim>\<open>Environment\<close> construct, its two import paths
  (\<^verbatim>\<open>fromEnvironmentArn\<close>, \<^verbatim>\<open>fromEnvironmentAttributes\<close>) and the forwarding
  methods of \<^verbatim>\<open>EnvironmentBase\<close>.  Strings are \<^typ>\<open>string\<close>; an optional property
  (\<^verbatim>\<open>name?: string\<close>) is an \<^typ>\<open>'a option\<close>; a construct is identified by its path
  in the construct tree (the ids from the root).  A \<^verbatim>\<open>throw\<close> is a value: every
  operation returns either an error or its result, together with the trace of the
  collaborator calls made so far.
\<close>

subsection \<open>Data\<close>

type_synonym path = "string list"

text \<open>
  \<open>Error msg\<close> is JavaScript's \<^verbatim>\<open>new Error(msg)\<close>; \<open>TypeError\<close> is what the runtime
  raises when a property of \<^verbatim>\<open>undefined\<close> is read.
\<close>

datatype error = Error string | TypeError

datatype ArnFormat = SLASH_RESOURCE_NAME

record ArnComponents =
  service :: string
  resource :: string
  resourceName :: "string option"

record IApplication =
  app_applicationId :: string

record IAlarm =
  alarmArn :: string

record IRole =
  roleArn :: string

record Monitor =
  alarm :: IAlarm
  alarmRole :: "IRole option"

record EnvironmentAttributes =
  attr_application :: IApplication
  attr_environmentId :: string
  attr_name :: "string option"
  attr_description :: "string option"
  attr_monitors :: "Monitor list option"

record EnvironmentProps =
  props_name :: "string option"
  props_description :: "string option"
  props_monitors :: "Monitor list option"
  props_application :: IApplication

datatype ActionPoint =
    PRE_CREATE_HOSTED_CONFIGURATION_VERSION
  | PRE_START_DEPLOYMENT
  | ON_DEPLOYMENT_START
  | ON_DEPLOYMENT_STEP
  | ON_DEPLOYMENT_BAKING
  | ON_DEPLOYMENT_COMPLETE
  | ON_DEPLOYMENT_ROLLED_BACK

text \<open>
  Event destinations, extension options and extensions are handed through to the
  extensible collaborator unread; they are opaque values here.
\<close>

datatype IEventDestination = EventDestination string

datatype ExtensionOptions = ExtensionOptions string

datatype IExtension = Extension string

text \<open>
  Modelled from the spec: \<^verbatim>\<open>ExtensibleBase\<close> of \<^verbatim>\<open>lib/extension.ts\<close>, which is not
  among the sources.  The spec (4.3, 6) gives it as the collaborator that is constructed
  with the resource's ARN and name, that owns all hook bookkeeping, and whose seven
  convenience wrappers each \<^emph>\<open>call the generic operation with its action point held
  constant\<close>.  The bookkeeping is the list of hooks and of associated extensions, in
  the order they were registered.
\<close>

record ExtensibleBase =
  ext_scope :: path
  ext_resourceArn :: string
  ext_resourceName :: "string option"
  ext_hooks :: "(ActionPoint \<times> IEventDestination \<times> ExtensionOptions option) list"
  ext_extensions :: "IExtension list"

text \<open>
  The fields of \<^verbatim>\<open>IEnvironment\<close>, and the protected \<^verbatim>\<open>extensible\<close> of
  \<^verbatim>\<open>EnvironmentBase\<close>, declared \<^verbatim>\<open>extensible!: ExtensibleBase\<close>: it is \<open>None\<close> until a
  constructor assigns it.
\<close>

record environment =
  application :: "IApplication option"
  applicationId :: string
  name :: "string option"
  description :: "string option"
  monitors :: "Monitor list option"
  environmentId :: string
  environmentArn :: string
  extensible :: "ExtensibleBase option"

subsection \<open>What the constructor hands to its collaborators\<close>

record ResourceProps =
  physicalName :: "string option"
  environmentFromArn :: "string option"

record MonitorsProperty =
  cfn_alarmArn :: string
  cfn_alarmRoleArn :: string

record CfnEnvironmentProps =
  cfn_applicationId :: string
  cfn_name :: string
  cfn_description :: "string option"
  cfn_monitors :: "MonitorsProperty list option"

datatype Effect = ALLOW | DENY

record PolicyStatement =
  effect :: Effect
  actions :: "string list"
  resources :: "string list"

record PolicyDocument =
  statements :: "PolicyStatement list"

datatype IPrincipal = ServicePrincipal string

datatype PhysicalName = GENERATE_IF_NEEDED

record RoleProps =
  roleName :: PhysicalName
  assumedBy :: IPrincipal
  inlinePolicies :: "(string \<times> PolicyDocument) list"

record UniqueResourceNameOptions =
  maxLength :: nat
  separator :: string

text \<open>
  The trace of collaborator calls: a construct registered in the tree by the
  \<^verbatim>\<open>Resource\<close> constructor (\<^verbatim>\<open>super(scope, id, props)\<close>, \<^verbatim>\<open>new Import(scope, id, props)\<close>),
  by \<^verbatim>\<open>new iam.Role\<close> or by \<^verbatim>\<open>new CfnEnvironment\<close>, and a call of
  \<^verbatim>\<open>application.addExistingEnvironment\<close>.
\<close>

datatype event =
    Resource path ResourceProps
  | Role path RoleProps
  | CfnEnvironment path CfnEnvironmentProps
  | AddExistingEnvironment IApplication environment

type_synonym 'a result = "(error + 'a) \<times> event list"

subsection \<open>Collaborators\<close>

text \<open>
  The module's collaborators live outside this file (\<^verbatim>\<open>aws-cdk-lib\<close>, \<^verbatim>\<open>constructs\<close>), so
  they are parameters of the model: the stack's ARN primitives, the name generator,
  the references a new role and a new \<^verbatim>\<open>CfnEnvironment\<close> expose, and the decision of
  a construct's constructor to throw (\<open>Some e\<close>) or to register the construct
  (\<open>None\<close>), taken from the tree so far and the construct asked for.
\<close>

record Stack =
  splitArn :: "string \<Rightarrow> ArnFormat \<Rightarrow> error + ArnComponents"
  formatArn :: "ArnComponents \<Rightarrow> string"

record collaborators =
  Stack_of :: "path \<Rightarrow> Stack"
  uniqueResourceName :: "path \<Rightarrow> UniqueResourceNameOptions \<Rightarrow> string"
  construct_throws :: "event list \<Rightarrow> event \<Rightarrow> error option"
  Role_roleArn :: "path \<Rightarrow> string"
  CfnEnvironment_ref :: "path \<Rightarrow> string"

subsection \<open>JavaScript strings\<close>

text \<open>
  \<^verbatim>\<open>s.split(sep)\<close> for a one-character separator: the segments between the
  separators, so the empty string gives one empty segment.
\<close>

fun string_split :: "char \<Rightarrow> string \<Rightarrow> string list" where
  "string_split sep [] = [[]]"
| "string_split sep (c # cs) =
     (if c = sep then [] # string_split sep cs
      else (case string_split sep cs of
              [] \<Rightarrow> [[c]]
            | seg # segs \<Rightarrow> (c # seg) # segs))"

text \<open>
  The decimal digits of an array index, as the template literal \<^verbatim>\<open>`Role${index}`\<close>
  prints it.
\<close>

definition digit :: "nat \<Rightarrow> char" where
  "digit d = ''0123456789'' ! d"

fun string_of_nat :: "nat \<Rightarrow> string" where
  "string_of_nat n =
     (if n < 10 then [digit n] else string_of_nat (n div 10) @ [digit (n mod 10)])"

declare string_of_nat.simps [simp del]

subsection \<open>Running collaborator calls\<close>

definition and_then :: "(event list \<Rightarrow> 'a result) \<Rightarrow> ('a \<Rightarrow> event list \<Rightarrow> 'b result)
    \<Rightarrow> event list \<Rightarrow> 'b result" where
  "and_then m f s =
     (case m s of
        (Inl e, s') \<Rightarrow> (Inl e, s')
      | (Inr x, s') \<Rightarrow> f x s')"

text \<open>
  A construct's constructor: it throws what the collaborator decides, and the tree is
  left as it was, or it registers the construct.
\<close>

definition new_construct :: "collaborators \<Rightarrow> event \<Rightarrow> event list \<Rightarrow> unit result" where
  "new_construct K c s =
     (case construct_throws K s c of
        Some e \<Rightarrow> (Inl e, s)
      | None \<Rightarrow> (Inr (), s @ [c]))"

subsection \<open>The two import paths\<close>

text \<open>
  \<^verbatim>\<open>fromEnvironmentArn\<close>.  The test \<^verbatim>\<open>!parsedArn.resourceName\<close> holds for \<^verbatim>\<open>undefined\<close>
  and for the empty string, and the first message ends with the resource name as the
  template literal prints it.  Both \<^verbatim>\<open>throw\<close>s come before \<^verbatim>\<open>new Import(scope, id, ...)\<close>,
  the only collaborator call after the parse; \<^verbatim>\<open>Import\<close> assigns the three identity
  fields and nothing else.
\<close>

definition fromEnvironmentArn ::
    "collaborators \<Rightarrow> path \<Rightarrow> string \<Rightarrow> string \<Rightarrow> event list \<Rightarrow> environment result" where
  "fromEnvironmentArn K scope id' environmentArn' s =
     (case splitArn (Stack_of K scope) environmentArn' SLASH_RESOURCE_NAME of
        Inl e \<Rightarrow> (Inl e, s)
      | Inr parsedArn \<Rightarrow>
          (case resourceName parsedArn of
             None \<Rightarrow>
               (Inl (Error (''Missing required /$/{applicationId}/environment//$/{environmentId} from environment ARN: ''
                            @ ''undefined'')), s)
           | Some rn \<Rightarrow>
               if rn = [] then
                 (Inl (Error (''Missing required /$/{applicationId}/environment//$/{environmentId} from environment ARN: ''
                              @ rn)), s)
               else
                 (let resourceName' = string_split (CHR ''/'') rn in
                  if length resourceName' \<noteq> 3 \<or> resourceName' ! 0 = [] \<or> resourceName' ! 2 = [] then
                    (Inl (Error ''Missing required parameters for environment ARN: format should be /$/{applicationId}/environment//$/{environmentId}''), s)
                  else
                    (let applicationId' = resourceName' ! 0;
                         environmentId' = resourceName' ! 2
                     in and_then
                          (new_construct K
                             (Resource (scope @ [id'])
                                \<lparr>physicalName = None, environmentFromArn = Some environmentArn'\<rparr>))
                          (\<lambda>_ s'.
                             (Inr \<lparr>application = None,
                                   applicationId = applicationId',
                                   name = None,
                                   description = None,
                                   monitors = None,
                                   environmentId = environmentId',
                                   environmentArn = environmentArn',
                                   extensible = None\<rparr>, s'))
                          s))))"

text \<open>
  \<^verbatim>\<open>fromEnvironmentAttributes\<close>: the ARN is formatted from the application's id and the
  environment id, and \<^verbatim>\<open>Import\<close> carries the attributes over.
\<close>

definition fromEnvironmentAttributes ::
    "collaborators \<Rightarrow> path \<Rightarrow> string \<Rightarrow> EnvironmentAttributes \<Rightarrow> event list
      \<Rightarrow> environment result" where
  "fromEnvironmentAttributes K scope id' attr s =
     (let applicationId' = app_applicationId (attr_application attr);
          environmentId' = attr_environmentId attr;
          stack = Stack_of K scope;
          environmentArn' = formatArn stack
            \<lparr>service = ''appconfig'',
             resource = ''application'',
             resourceName = Some (applicationId' @ ''/environment/'' @ environmentId')\<rparr>
      in and_then
           (new_construct K
              (Resource (scope @ [id'])
                 \<lparr>physicalName = None, environmentFromArn = Some environmentArn'\<rparr>))
           (\<lambda>_ s'.
              (Inr \<lparr>application = Some (attr_application attr),
                    applicationId = app_applicationId (attr_application attr),
                    name = attr_name attr,
                    description = attr_description attr,
                    monitors = attr_monitors attr,
                    environmentId = environmentId',
                    environmentArn = environmentArn',
                    extensible = None\<rparr>, s'))
           s)"

subsection \<open>The extensible collaborator\<close>

text \<open>
  Modelled from the spec: the operations of \<^verbatim>\<open>ExtensibleBase\<close> (\<^verbatim>\<open>lib/extension.ts\<close> is
  not among the sources).  The generic operation records the hook; each convenience
  wrapper is, in the spec's words, a call of the generic operation with its action
  point held constant; \<^verbatim>\<open>addExtension\<close> records the association.
\<close>

definition ExtensibleBase_new :: "path \<Rightarrow> string \<Rightarrow> string option \<Rightarrow> ExtensibleBase" where
  "ExtensibleBase_new scope resourceArn resourceName' =
     \<lparr>ext_scope = scope, ext_resourceArn = resourceArn, ext_resourceName = resourceName',
      ext_hooks = [], ext_extensions = []\<rparr>"

definition ext_on ::
    "ExtensibleBase \<Rightarrow> ActionPoint \<Rightarrow> IEventDestination \<Rightarrow> ExtensionOptions option
      \<Rightarrow> ExtensibleBase" where
  "ext_on x actionPoint eventDestination options =
     x\<lparr>ext_hooks := ext_hooks x @ [(actionPoint, eventDestination, options)]\<rparr>"

definition ext_preCreateHostedConfigurationVersion ::
    "ExtensibleBase \<Rightarrow> IEventDestination \<Rightarrow> ExtensionOptions option \<Rightarrow> ExtensibleBase" where
  "ext_preCreateHostedConfigurationVersion x eventDestination options =
     ext_on x PRE_CREATE_HOSTED_CONFIGURATION_VERSION eventDestination options"

definition ext_preStartDeployment ::
    "ExtensibleBase \<Rightarrow> IEventDestination \<Rightarrow> ExtensionOptions option \<Rightarrow> ExtensibleBase" where
  "ext_preStartDeployment x eventDestination options =
     ext_on x PRE_START_DEPLOYMENT eventDestination options"

definition ext_onDeploymentStart ::
    "ExtensibleBase \<Rightarrow> IEventDestination \<Rightarrow> ExtensionOptions option \<Rightarrow> ExtensibleBase" where
  "ext_onDeploymentStart x eventDestination options =
     ext_on x ON_DEPLOYMENT_START eventDestination options"

definition ext_onDeploymentStep ::
    "ExtensibleBase \<Rightarrow> IEventDestination \<Rightarrow> ExtensionOptions option \<Rightarrow> ExtensibleBase" where
  "ext_onDeploymentStep x eventDestination options =
     ext_on x ON_DEPLOYMENT_STEP eventDestination options"

definition ext_onDeploymentBaking ::
    "ExtensibleBase \<Rightarrow> IEventDestination \<Rightarrow> ExtensionOptions option \<Rightarrow> ExtensibleBase" where
  "ext_onDeploymentBaking x eventDestination options =
     ext_on x ON_DEPLOYMENT_BAKING eventDestination options"

definition ext_onDeploymentComplete ::
    "ExtensibleBase \<Rightarrow> IEventDestination \<Rightarrow> ExtensionOptions option \<Rightarrow> ExtensibleBase" where
  "ext_onDeploymentComplete x eventDestination options =
     ext_on x ON_DEPLOYMENT_COMPLETE eventDestination options"

definition ext_onDeploymentRolledBack ::
    "ExtensibleBase \<Rightarrow> IEventDestination \<Rightarrow> ExtensionOptions option \<Rightarrow> ExtensibleBase" where
  "ext_onDeploymentRolledBack x eventDestination options =
     ext_on x ON_DEPLOYMENT_ROLLED_BACK eventDestination options"

definition ext_addExtension :: "ExtensibleBase \<Rightarrow> IExtension \<Rightarrow> ExtensibleBase" where
  "ext_addExtension x extension = x\<lparr>ext_extensions := ext_extensions x @ [extension]\<rparr>"

subsection \<open>\<^verbatim>\<open>EnvironmentBase\<close>: forwarding to \<^verbatim>\<open>this.extensible\<close>\<close>

text \<open>
  Every method of \<^verbatim>\<open>EnvironmentBase\<close> is one call \<^verbatim>\<open>this.extensible.m(...)\<close>.  Where
  \<^verbatim>\<open>extensible\<close> was never assigned the call reads a property of \<^verbatim>\<open>undefined\<close>.
\<close>

definition this_extensible ::
    "environment \<Rightarrow> (ExtensibleBase \<Rightarrow> ExtensibleBase) \<Rightarrow> error + environment" where
  "this_extensible this m =
     (case extensible this of
        None \<Rightarrow> Inl TypeError
      | Some x \<Rightarrow> Inr (this\<lparr>extensible := Some (m x)\<rparr>))"

definition on ::
    "environment \<Rightarrow> ActionPoint \<Rightarrow> IEventDestination \<Rightarrow> ExtensionOptions option
      \<Rightarrow> error + environment" where
  "on this actionPoint eventDestination options =
     this_extensible this (\<lambda>x. ext_on x actionPoint eventDestination options)"

definition preCreateHostedConfigurationVersion ::
    "environment \<Rightarrow> IEventDestination \<Rightarrow> ExtensionOptions option \<Rightarrow> error + environment" where
  "preCreateHostedConfigurationVersion this eventDestination options =
     this_extensible this
       (\<lambda>x. ext_preCreateHostedConfigurationVersion x eventDestination options)"

definition preStartDeployment ::
    "environment \<Rightarrow> IEventDestination \<Rightarrow> ExtensionOptions option \<Rightarrow> error + environment" where
  "preStartDeployment this eventDestination options =
     this_extensible this (\<lambda>x. ext_preStartDeployment x eventDestination options)"

definition onDeploymentStart ::
    "environment \<Rightarrow> IEventDestination \<Rightarrow> ExtensionOptions option \<Rightarrow> error + environment" where
  "onDeploymentStart this eventDestination options =
     this_extensible this (\<lambda>x. ext_onDeploymentStart x eventDestination options)"

definition onDeploymentStep ::
    "environment \<Rightarrow> IEventDestination \<Rightarrow> ExtensionOptions option \<Rightarrow> error + environment" where
  "onDeploymentStep this eventDestination options =
     this_extensible this (\<lambda>x. ext_onDeploymentStep x eventDestination options)"

definition onDeploymentBaking ::
    "environment \<Rightarrow> IEventDestination \<Rightarrow> ExtensionOptions option \<Rightarrow> error + environment" where
  "onDeploymentBaking this eventDestination options =
     this_extensible this (\<lambda>x. ext_onDeploymentBaking x eventDestination options)"

definition onDeploymentComplete ::
    "environment \<Rightarrow> IEventDestination \<Rightarrow> ExtensionOptions option \<Rightarrow> error + environment" where
  "onDeploymentComplete this eventDestination options =
     this_extensible this (\<lambda>x. ext_onDeploymentComplete x eventDestination options)"

definition onDeploymentRolledBack ::
    "environment \<Rightarrow> IEventDestination \<Rightarrow> ExtensionOptions option \<Rightarrow> error + environment" where
  "onDeploymentRolledBack this eventDestination options =
     this_extensible this (\<lambda>x. ext_onDeploymentRolledBack x eventDestination options)"

definition addExtension :: "environment \<Rightarrow> IExtension \<Rightarrow> error + environment" where
  "addExtension this extension = this_extensible this (\<lambda>x. ext_addExtension x extension)"

subsection \<open>The \<^verbatim>\<open>Environment\<close> constructor\<close>

text \<open>
  \<^verbatim>\<open>createAlarmRole(alarmArn, index)\<close>: one policy statement, one document, and the role
  \<^verbatim>\<open>Role<index>\<close> under \<^verbatim>\<open>this\<close>; the role handed back exposes the ARN the IAM
  collaborator gives it.
\<close>

definition createAlarmRole ::
    "collaborators \<Rightarrow> path \<Rightarrow> string \<Rightarrow> nat \<Rightarrow> event list \<Rightarrow> IRole result" where
  "createAlarmRole K this alarmArn' index s =
     (let policy = \<lparr>effect = ALLOW,
                    actions = [''cloudwatch:DescribeAlarms''],
                    resources = [alarmArn']\<rparr>;
          document = \<lparr>statements = [policy]\<rparr>;
          role = this @ [''Role'' @ string_of_nat index]
      in and_then
           (new_construct K
              (Role role
                 \<lparr>roleName = GENERATE_IF_NEEDED,
                  assumedBy = ServicePrincipal ''appconfig.amazonaws.com'',
                  inlinePolicies = [(''AllowAppConfigMonitorAlarmPolicy'', document)]\<rparr>))
           (\<lambda>_ s'. (Inr \<lparr>roleArn = Role_roleArn K role\<rparr>, s'))
           s)"

text \<open>
  The callback of \<^verbatim>\<open>this.monitors?.map((monitor, index) => ...)\<close>.  The role's ARN is
  \<^verbatim>\<open>monitor.alarmRole?.roleArn || this.createAlarmRole(...).roleArn\<close>: the right operand
  runs when the left one is \<^verbatim>\<open>undefined\<close> or the empty string.
\<close>

definition monitor_entry ::
    "collaborators \<Rightarrow> path \<Rightarrow> Monitor \<Rightarrow> nat \<Rightarrow> event list \<Rightarrow> MonitorsProperty result" where
  "monitor_entry K this monitor index s =
     (let created =
            and_then (createAlarmRole K this (alarmArn (alarm monitor)) index)
              (\<lambda>role s'.
                 (Inr \<lparr>cfn_alarmArn = alarmArn (alarm monitor),
                       cfn_alarmRoleArn = roleArn role\<rparr>, s'))
              s
      in case alarmRole monitor of
           None \<Rightarrow> created
         | Some role \<Rightarrow>
             if roleArn role \<noteq> [] then
               (Inr \<lparr>cfn_alarmArn = alarmArn (alarm monitor),
                     cfn_alarmRoleArn = roleArn role\<rparr>, s)
             else created)"

fun monitors_map ::
    "collaborators \<Rightarrow> path \<Rightarrow> Monitor list \<Rightarrow> nat \<Rightarrow> event list
      \<Rightarrow> MonitorsProperty list result" where
  "monitors_map K this [] index s = (Inr [], s)"
| "monitors_map K this (monitor # rest) index s =
     and_then (monitor_entry K this monitor index)
       (\<lambda>entry.
          and_then (monitors_map K this rest (Suc index))
            (\<lambda>entries s'. (Inr (entry # entries), s')))
       s"

text \<open>\<^verbatim>\<open>this.monitors?.map(...)\<close>: \<^verbatim>\<open>undefined\<close> when there is no list of monitors.\<close>

definition optional_monitors_map ::
    "collaborators \<Rightarrow> path \<Rightarrow> Monitor list option \<Rightarrow> event list
      \<Rightarrow> MonitorsProperty list option result" where
  "optional_monitors_map K this monitors' =
     (case monitors' of
        None \<Rightarrow> (\<lambda>s. (Inr None, s))
      | Some ms \<Rightarrow>
          and_then (monitors_map K this ms 0) (\<lambda>entries s. (Inr (Some entries), s)))"

text \<open>
  The constructor, in the order of its statements: \<^verbatim>\<open>super(scope, id, ...)\<close>; the name,
  \<^verbatim>\<open>props.name || Names.uniqueResourceName(this, ...)\<close>, whose right operand is taken for
  an absent and for an empty name; the monitors' entries, evaluated as an argument of
  \<^verbatim>\<open>new CfnEnvironment(this, 'Resource', ...)\<close> and so before it; the id and the ARN read
  back from the resource; the extensible collaborator; and last the call
  \<^verbatim>\<open>this.application.addExistingEnvironment(this)\<close>.
\<close>

definition Environment ::
    "collaborators \<Rightarrow> path \<Rightarrow> string \<Rightarrow> EnvironmentProps \<Rightarrow> event list \<Rightarrow> environment result" where
  "Environment K scope id' props s =
     (let this = scope @ [id'] in
      and_then
        (new_construct K
           (Resource this \<lparr>physicalName = props_name props, environmentFromArn = None\<rparr>))
        (\<lambda>_.
           let generated = uniqueResourceName K this \<lparr>maxLength = 64, separator = ''-''\<rparr>;
               name' = (case props_name props of
                          None \<Rightarrow> generated
                        | Some n \<Rightarrow> if n \<noteq> [] then n else generated);
               application' = props_application props;
               applicationId' = app_applicationId application';
               description' = props_description props;
               monitors' = props_monitors props
           in and_then (optional_monitors_map K this monitors')
                (\<lambda>entries.
                   and_then
                     (new_construct K
                        (CfnEnvironment (this @ [''Resource''])
                           \<lparr>cfn_applicationId = applicationId',
                            cfn_name = name',
                            cfn_description = description',
                            cfn_monitors = entries\<rparr>))
                     (\<lambda>_ s'.
                        let environmentId' = CfnEnvironment_ref K (this @ [''Resource'']);
                            environmentArn' = formatArn (Stack_of K this)
                              \<lparr>service = ''appconfig'',
                               resource = ''application'',
                               resourceName =
                                 Some (applicationId' @ ''/environment/'' @ environmentId')\<rparr>;
                            environment' =
                              \<lparr>application = Some application',
                               applicationId = applicationId',
                               name = Some name',
                               description = description',
                               monitors = monitors',
                               environmentId = environmentId',
                               environmentArn = environmentArn',
                               extensible =
                                 Some (ExtensibleBase_new scope environmentArn' (Some name'))\<rparr>
                        in (Inr environment', s' @ [AddExistingEnvironment application' environment']))))
        s)"

subsection \<open>A sample set of collaborators\<close>

text \<open>
  Concrete collaborators, on which the model is run at concrete inputs: a stack in the
  partition \<^verbatim>\<open>arn:aws\<close>, the region \<^verbatim>\<open>us-east-1\<close> and the account \<^verbatim>\<open>123456789012\<close>.
\<close>

text \<open>
  Modelled from the spec: \<^verbatim>\<open>Stack.formatArn\<close> (\<^verbatim>\<open>aws-cdk-lib\<close>, not among the sources).
  The spec (6) fixes the format
  \<^verbatim>\<open><partition>:<service>:<region>:<account>:<resource>/<resourceName>\<close>, the resource name
  slash-separated from the resource type.
\<close>

definition sample_formatArn :: "ArnComponents \<Rightarrow> string" where
  "sample_formatArn c =
     ''arn:aws:'' @ service c @ '':us-east-1:123456789012:'' @ resource c
       @ (case resourceName c of None \<Rightarrow> [] | Some rn \<Rightarrow> ''/'' @ rn)"

text \<open>
  Modelled from the spec: \<^verbatim>\<open>Stack.splitArn\<close> (\<^verbatim>\<open>aws-cdk-lib\<close>, not among the sources),
  for the same format (6): the resource name is the text after the first slash, absent
  when there is no slash; the resource type is the last colon-separated field before
  it.
\<close>

definition sample_splitArn :: "string \<Rightarrow> ArnFormat \<Rightarrow> error + ArnComponents" where
  "sample_splitArn arn arnFormat =
     (let before = takeWhile (\<lambda>c. c \<noteq> CHR ''/'') arn;
          after = dropWhile (\<lambda>c. c \<noteq> CHR ''/'') arn;
          fields = rev (string_split (CHR '':'') before)
      in Inr \<lparr>service = (if 3 < length fields then fields ! 3 else []),
              resource = (case fields of [] \<Rightarrow> [] | f # _ \<Rightarrow> f),
              resourceName = (case after of [] \<Rightarrow> None | _ # rn \<Rightarrow> Some rn)\<rparr>)"

definition sample_Stack :: Stack where
  "sample_Stack = \<lparr>splitArn = sample_splitArn, formatArn = sample_formatArn\<rparr>"

text \<open>\<^verbatim>\<open>parts.join(sep)\<close>.\<close>

fun join :: "string \<Rightarrow> string list \<Rightarrow> string" where
  "join sep [] = []"
| "join sep [x] = x"
| "join sep (x # y # ys) = x @ sep @ join sep (y # ys)"

text \<open>
  Modelled from the spec: \<^verbatim>\<open>Names.uniqueResourceName\<close> (\<^verbatim>\<open>aws-cdk-lib\<close>, not among the
  sources).  By the words of 4.2 the name is made of the scope-derived path segments
  with the separator between them, is truncated to the maximal length, is a function of
  the path, and is kept apart from the names of siblings: the generator ends the name
  with a hash of the whole path, eight characters long, and truncates the segments
  before it.  The hash function is the generator's own and is a parameter here;
  \<open>pathHash8\<close> cuts or pads what it returns to the eight characters.
\<close>

definition pathHash8 :: "(path \<Rightarrow> string) \<Rightarrow> path \<Rightarrow> string" where
  "pathHash8 h p = take 8 (h p @ replicate 8 (CHR ''0''))"

definition Names_uniqueResourceName ::
    "(path \<Rightarrow> string) \<Rightarrow> path \<Rightarrow> UniqueResourceNameOptions \<Rightarrow> string" where
  "Names_uniqueResourceName h p options =
     take (maxLength options - 8) (join (separator options) p @ separator options)
       @ pathHash8 h p"

text \<open>
  The sample's path hash, tabulated at the two paths the sample constructions are
  named from: the first eight hexadecimal digits, in upper case, of the MD5 digest of
  the path joined by slashes.
\<close>

definition sample_pathHash :: "path \<Rightarrow> string" where
  "sample_pathHash p =
     (if p = [''App'', ''Env''] then ''F0E05CD2''
      else if p = [''App'', ''Env2''] then ''FAAC3692''
      else ''00000000'')"

fun construct_path :: "event \<Rightarrow> path option" where
  "construct_path (Resource p _) = Some p"
| "construct_path (Role p _) = Some p"
| "construct_path (CfnEnvironment p _) = Some p"
| "construct_path (AddExistingEnvironment _ _) = None"

text \<open>The sample tree refuses a construct at a path that is already taken.\<close>

definition sample_construct_throws :: "event list \<Rightarrow> event \<Rightarrow> error option" where
  "sample_construct_throws tree c =
     (if construct_path c \<in> set (map construct_path tree)
      then Some (Error ''There is already a Construct with this name'')
      else None)"

definition sample :: collaborators where
  "sample =
     \<lparr>Stack_of = (\<lambda>_. sample_Stack),
      uniqueResourceName = Names_uniqueResourceName sample_pathHash,
      construct_throws = sample_construct_throws,
      Role_roleArn = (\<lambda>p. ''arn:aws:iam::123456789012:role/'' @ join ''-'' p),
      CfnEnvironment_ref = (\<lambda>p. join ''.'' p)\<rparr>"

text \<open>
  A sample construction: the application \<^verbatim>\<open>app1\<close>, the name \<^verbatim>\<open>prod\<close>, one monitor
  without a role and one with a role of its own; and the environment it builds in the
  scope \<^verbatim>\<open>App\<close> under the id \<^verbatim>\<open>Env\<close>.
\<close>

definition sample_props :: EnvironmentProps where
  "sample_props =
     \<lparr>props_name = Some ''prod'',
      props_description = None,
      props_monitors = Some
        [\<lparr>alarm = \<lparr>alarmArn = ''arn:aws:cloudwatch:us-east-1:123456789012:alarm:A1''\<rparr>,
          alarmRole = None\<rparr>,
         \<lparr>alarm = \<lparr>alarmArn = ''arn:aws:cloudwatch:us-east-1:123456789012:alarm:A2''\<rparr>,
          alarmRole = Some \<lparr>roleArn = ''arn:aws:iam::123456789012:role/Mine''\<rparr>\<rparr>],
      props_application = \<lparr>app_applicationId = ''app1''\<rparr>\<rparr>"

definition sample_environment :: environment where
  "sample_environment =
     \<lparr>application = Some \<lparr>app_applicationId = ''app1''\<rparr>,
      applicationId = ''app1'',
      name = Some ''prod'',
      description = None,
      monitors = props_monitors sample_props,
      environmentId = ''App.Env.Resource'',
      environmentArn =
        ''arn:aws:appconfig:us-east-1:123456789012:application/app1/environment/App.Env.Resource'',
      extensible = Some
        \<lparr>ext_scope = [''App''],
         ext_resourceArn =
           ''arn:aws:appconfig:us-east-1:123456789012:application/app1/environment/App.Env.Resource'',
         ext_resourceName = Some ''prod'',
         ext_hooks = [],
         ext_extensions = []\<rparr>\<rparr>"


text \<open>The same collaborators, with a resource sink that refuses every descriptor.\<close>

definition sample_refusing :: collaborators where
  "sample_refusing =
     sample\<lparr>construct_throws :=
       (\<lambda>tree c. case c of
                    CfnEnvironment _ _ \<Rightarrow> Some (Error ''The resource sink refuses the descriptor'')
                  | _ \<Rightarrow> None)\<rparr>"

text \<open>Whether an event is a registration with the parent application.\<close>

fun is_AddExistingEnvironment :: "event \<Rightarrow> bool" where
  "is_AddExistingEnvironment (AddExistingEnvironment _ _) = True"
| "is_AddExistingEnvironment _ = False"

text \<open>
  Shorthands for the statements below: the role that \<^verbatim>\<open>createAlarmRole\<close> asks for, and
  a monitor whose own role has a non-empty ARN.
\<close>

abbreviation alarm_role :: "path \<Rightarrow> string \<Rightarrow> nat \<Rightarrow> event" where
  "alarm_role this alarmArn' index \<equiv>
     Role (this @ [''Role'' @ string_of_nat index])
       \<lparr>roleName = GENERATE_IF_NEEDED,
        assumedBy = ServicePrincipal ''appconfig.amazonaws.com'',
        inlinePolicies =
          [(''AllowAppConfigMonitorAlarmPolicy'',
            \<lparr>statements =
               [\<lparr>effect = ALLOW,
                 actions = [''cloudwatch:DescribeAlarms''],
                 resources = [alarmArn']\<rparr>]\<rparr>)]\<rparr>"

abbreviation supplies_role :: "Monitor \<Rightarrow> bool" where
  "supplies_role monitor \<equiv> (\<exists>role. alarmRole monitor = Some role \<and> roleArn role \<noteq> [])"

text \<open>The value of \<^verbatim>\<open>props.name || Names.uniqueResourceName(this, ...)\<close>.\<close>

abbreviation resolved_name :: "collaborators \<Rightarrow> path \<Rightarrow> string option \<Rightarrow> string" where
  "resolved_name K this supplied \<equiv>
     (case supplied of
        None \<Rightarrow> uniqueResourceName K this \<lparr>maxLength = 64, separator = ''-''\<rparr>
      | Some n \<Rightarrow>
          if n \<noteq> [] then n
          else uniqueResourceName K this \<lparr>maxLength = 64, separator = ''-''\<rparr>)"

section \<open>Properties\<close>

subsection \<open>The sample collaborators, unfolded\<close>

lemma sample_splitArn_simps:
  "splitArn (Stack_of sample scope) arn arnFormat = sample_splitArn arn arnFormat"
  by (simp add: sample_def sample_Stack_def)

lemma sample_formatArn_simps:
  "formatArn (Stack_of sample scope) c = sample_formatArn c"
  by (simp add: sample_def sample_Stack_def)

lemma sample_construct_throws_simps:
  "construct_throws sample tree c = sample_construct_throws tree c"
  by (simp add: sample_def)

subsection \<open>Importing by ARN\<close>

text \<open>
  A resource name of three segments with non-empty ends passes both checks; the
  import then registers the \<^verbatim>\<open>Import\<close> construct and returns the identity triple.
\<close>

lemma fromEnvironmentArn_segments:
  assumes "splitArn (Stack_of K scope) arn SLASH_RESOURCE_NAME = Inr parsed"
    and "resourceName parsed = Some rn"
    and "string_split (CHR ''/'') rn = [a, m, e]"
    and "a \<noteq> []" and "e \<noteq> []"
    and "construct_throws K s
           (Resource (scope @ [id']) \<lparr>physicalName = None, environmentFromArn = Some arn\<rparr>) = None"
  shows "fromEnvironmentArn K scope id' arn s =
           (Inr \<lparr>application = None, applicationId = a, name = None, description = None,
                 monitors = None, environmentId = e, environmentArn = arn,
                 extensible = None\<rparr>,
            s @ [Resource (scope @ [id']) \<lparr>physicalName = None, environmentFromArn = Some arn\<rparr>])"
proof -
  have "rn \<noteq> []" using assms(3) by auto
  then show ?thesis
    using assms by (simp add: fromEnvironmentArn_def and_then_def new_construct_def)
qed

text \<open>
  Claim C1.  For every ARN that the stack parses, whose resource name splits on \<open>/\<close>
  into exactly the three segments \<open>[A, environment, E]\<close> with \<open>A\<close> and \<open>E\<close> non-empty,
  and for a scope that accepts the imported construct, \<^verbatim>\<open>fromEnvironmentArn\<close>
  succeeds: the environment it returns has \<open>applicationId = A\<close>, \<open>environmentId = E\<close>
  and \<open>environmentArn\<close> equal to the input string verbatim (every other field unset),
  and the only collaborator call is the registration of the construct.
\<close>

theorem fromEnvironmentArn_valid:
  assumes "splitArn (Stack_of K scope) arn SLASH_RESOURCE_NAME = Inr parsed"
    and "resourceName parsed = Some rn"
    and "string_split (CHR ''/'') rn = [A, ''environment'', E]"
    and "A \<noteq> []" and "E \<noteq> []"
    and "construct_throws K s
           (Resource (scope @ [id']) \<lparr>physicalName = None, environmentFromArn = Some arn\<rparr>) = None"
  shows "fromEnvironmentArn K scope id' arn s =
           (Inr \<lparr>application = None, applicationId = A, name = None, description = None,
                 monitors = None, environmentId = E, environmentArn = arn,
                 extensible = None\<rparr>,
            s @ [Resource (scope @ [id']) \<lparr>physicalName = None, environmentFromArn = Some arn\<rparr>])"
  using assms by (rule fromEnvironmentArn_segments)

theorem fromEnvironmentArn_valid_witness:
  "fromEnvironmentArn sample [''App''] ''Imported''
      ''arn:aws:appconfig:us-east-1:123456789012:application/app1/environment/env1'' [] =
     (Inr \<lparr>application = None, applicationId = ''app1'', name = None, description = None,
           monitors = None, environmentId = ''env1'',
           environmentArn =
             ''arn:aws:appconfig:us-east-1:123456789012:application/app1/environment/env1'',
           extensible = None\<rparr>,
      [Resource [''App'', ''Imported'']
         \<lparr>physicalName = None,
          environmentFromArn =
            Some ''arn:aws:appconfig:us-east-1:123456789012:application/app1/environment/env1''\<rparr>])"
  using fromEnvironmentArn_valid [of sample "[''App'']"
      "''arn:aws:appconfig:us-east-1:123456789012:application/app1/environment/env1''"
      "\<lparr>service = ''appconfig'', resource = ''application'',
        resourceName = Some ''app1/environment/env1''\<rparr>"
      "''app1/environment/env1''" "''app1''" "''env1''" "[]" "''Imported''"]
  by (simp add: sample_splitArn_simps sample_splitArn_def sample_construct_throws_simps
      sample_construct_throws_def)

text \<open>
  Claim C2.  Write \<open>rn\<close> for the resource name of the ARN (absent also when the stack's
  parser rejects the string).  Whenever \<open>rn\<close> is absent, or its split on \<open>/\<close> has a
  number of segments other than three, or an empty first or third segment,
  \<^verbatim>\<open>fromEnvironmentArn\<close> throws and the trace of collaborator calls is left as it was:
  nothing has been registered.  Where the parser accepted the string the exception is the
  function's own \<^verbatim>\<open>Error\<close>.  On every other input the function itself does not throw:
  an exception there can only be the one the \<^verbatim>\<open>Import\<close> construct's constructor raised,
  so in a scope that accepts the construct the import succeeds.
\<close>

theorem fromEnvironmentArn_throws:
  fixes K scope arn id' s
  defines "rn \<equiv> (case splitArn (Stack_of K scope) arn SLASH_RESOURCE_NAME of
                    Inl _ \<Rightarrow> None | Inr parsed \<Rightarrow> resourceName parsed)"
  defines "malformed \<equiv> (case rn of
                    None \<Rightarrow> True
                  | Some r \<Rightarrow> length (string_split (CHR ''/'') r) \<noteq> 3
                       \<or> string_split (CHR ''/'') r ! 0 = []
                       \<or> string_split (CHR ''/'') r ! 2 = [])"
  shows "(malformed \<longrightarrow> (\<exists>e. fromEnvironmentArn K scope id' arn s = (Inl e, s)))
       \<and> (malformed \<longrightarrow>
            (\<exists>parsed. splitArn (Stack_of K scope) arn SLASH_RESOURCE_NAME = Inr parsed) \<longrightarrow>
            (\<exists>msg. fromEnvironmentArn K scope id' arn s = (Inl (Error msg), s)))
       \<and> (\<not> malformed \<longrightarrow>
            (\<forall>e. fst (fromEnvironmentArn K scope id' arn s) = Inl e \<longrightarrow>
              construct_throws K s (Resource (scope @ [id'])
                \<lparr>physicalName = None, environmentFromArn = Some arn\<rparr>) = Some e))"
  unfolding malformed_def rn_def
  by (auto simp: fromEnvironmentArn_def and_then_def new_construct_def Let_def
      split: sum.splits option.splits if_splits)

theorem fromEnvironmentArn_throws_witness:
  "(\<exists>msg. fromEnvironmentArn sample [''App''] ''Imported''
       ''arn:aws:appconfig:us-east-1:123456789012:application'' [] = (Inl (Error msg), []))
 \<and> (\<exists>msg. fromEnvironmentArn sample [''App''] ''Imported''
       ''arn:aws:appconfig:us-east-1:123456789012:application/app1/environment'' [] =
         (Inl (Error msg), []))
 \<and> (\<exists>msg. fromEnvironmentArn sample [''App''] ''Imported''
       ''arn:aws:appconfig:us-east-1:123456789012:application/app1/environment/env1/x'' [] =
         (Inl (Error msg), []))
 \<and> (\<exists>msg. fromEnvironmentArn sample [''App''] ''Imported''
       ''arn:aws:appconfig:us-east-1:123456789012:application//environment/env1'' [] =
         (Inl (Error msg), []))
 \<and> (\<exists>msg. fromEnvironmentArn sample [''App''] ''Imported''
       ''arn:aws:appconfig:us-east-1:123456789012:application/app1/environment/'' [] =
         (Inl (Error msg), []))
 \<and> (\<forall>e. fst (fromEnvironmentArn sample [''App''] ''Imported''
       ''arn:aws:appconfig:us-east-1:123456789012:application/app1/environment/env1'' []) \<noteq> Inl e)"
proof (intro conjI)
  show "\<exists>msg. fromEnvironmentArn sample [''App''] ''Imported''
       ''arn:aws:appconfig:us-east-1:123456789012:application'' [] = (Inl (Error msg), [])"
    using fromEnvironmentArn_throws [of sample "[''App'']"
        "''arn:aws:appconfig:us-east-1:123456789012:application''" "''Imported''" "[]"]
    by (simp add: sample_splitArn_simps sample_splitArn_def)
  show "\<exists>msg. fromEnvironmentArn sample [''App''] ''Imported''
       ''arn:aws:appconfig:us-east-1:123456789012:application/app1/environment'' [] =
         (Inl (Error msg), [])"
    using fromEnvironmentArn_throws [of sample "[''App'']"
        "''arn:aws:appconfig:us-east-1:123456789012:application/app1/environment''"
        "''Imported''" "[]"]
    by (simp add: sample_splitArn_simps sample_splitArn_def)
  show "\<exists>msg. fromEnvironmentArn sample [''App''] ''Imported''
       ''arn:aws:appconfig:us-east-1:123456789012:application/app1/environment/env1/x'' [] =
         (Inl (Error msg), [])"
    using fromEnvironmentArn_throws [of sample "[''App'']"
        "''arn:aws:appconfig:us-east-1:123456789012:application/app1/environment/env1/x''"
        "''Imported''" "[]"]
    by (simp add: sample_splitArn_simps sample_splitArn_def)
  show "\<exists>msg. fromEnvironmentArn sample [''App''] ''Imported''
       ''arn:aws:appconfig:us-east-1:123456789012:application//environment/env1'' [] =
         (Inl (Error msg), [])"
    using fromEnvironmentArn_throws [of sample "[''App'']"
        "''arn:aws:appconfig:us-east-1:123456789012:application//environment/env1''"
        "''Imported''" "[]"]
    by (simp add: sample_splitArn_simps sample_splitArn_def)
  show "\<exists>msg. fromEnvironmentArn sample [''App''] ''Imported''
       ''arn:aws:appconfig:us-east-1:123456789012:application/app1/environment/'' [] =
         (Inl (Error msg), [])"
    using fromEnvironmentArn_throws [of sample "[''App'']"
        "''arn:aws:appconfig:us-east-1:123456789012:application/app1/environment/''"
        "''Imported''" "[]"]
    by (simp add: sample_splitArn_simps sample_splitArn_def)
  show "\<forall>e. fst (fromEnvironmentArn sample [''App''] ''Imported''
       ''arn:aws:appconfig:us-east-1:123456789012:application/app1/environment/env1'' []) \<noteq> Inl e"
    using fromEnvironmentArn_throws [of sample "[''App'']"
        "''arn:aws:appconfig:us-east-1:123456789012:application/app1/environment/env1''"
        "''Imported''" "[]"]
    by (simp add: sample_splitArn_simps sample_splitArn_def sample_construct_throws_simps
        sample_construct_throws_def)
qed

text \<open>
  Claim C9.  \<^verbatim>\<open>fromEnvironmentArn\<close> never reads the middle segment: for every ARN
  whose resource name splits into exactly three segments with non-empty first and
  third segments the import succeeds (in a scope that accepts the construct),
  whatever the middle segment is, the empty string included, and the parsed
  \<open>applicationId\<close> and \<open>environmentId\<close> are the segments 0 and 2.
\<close>

theorem fromEnvironmentArn_middle_segment_unchecked:
  assumes "splitArn (Stack_of K scope) arn SLASH_RESOURCE_NAME = Inr parsed"
    and "resourceName parsed = Some rn"
    and "length (string_split (CHR ''/'') rn) = 3"
    and "string_split (CHR ''/'') rn ! 0 \<noteq> []"
    and "string_split (CHR ''/'') rn ! 2 \<noteq> []"
    and "construct_throws K s
           (Resource (scope @ [id']) \<lparr>physicalName = None, environmentFromArn = Some arn\<rparr>) = None"
  shows "\<exists>env s'. fromEnvironmentArn K scope id' arn s = (Inr env, s')
           \<and> applicationId env = string_split (CHR ''/'') rn ! 0
           \<and> environmentId env = string_split (CHR ''/'') rn ! 2"
proof -
  obtain a m e where segs: "string_split (CHR ''/'') rn = [a, m, e]"
    using assms(3) by (auto simp: length_Suc_conv numeral_3_eq_3)
  with assms(4,5) have "a \<noteq> []" "e \<noteq> []" by simp_all
  from fromEnvironmentArn_segments [OF assms(1,2) segs this assms(6)] segs
  show ?thesis by simp
qed

theorem fromEnvironmentArn_middle_segment_unchecked_witness:
  "(\<exists>env s'. fromEnvironmentArn sample [''App''] ''Imported''
       ''arn:aws:appconfig:us-east-1:123456789012:application/app1//env1'' [] = (Inr env, s')
           \<and> applicationId env = ''app1'' \<and> environmentId env = ''env1'')
 \<and> (\<exists>env s'. fromEnvironmentArn sample [''App''] ''Imported''
       ''arn:aws:appconfig:us-east-1:123456789012:application/app1/deployment/env1'' [] =
         (Inr env, s')
           \<and> applicationId env = ''app1'' \<and> environmentId env = ''env1'')"
proof (intro conjI)
  show "\<exists>env s'. fromEnvironmentArn sample [''App''] ''Imported''
       ''arn:aws:appconfig:us-east-1:123456789012:application/app1//env1'' [] = (Inr env, s')
           \<and> applicationId env = ''app1'' \<and> environmentId env = ''env1''"
    using fromEnvironmentArn_middle_segment_unchecked [of sample "[''App'']"
        "''arn:aws:appconfig:us-east-1:123456789012:application/app1//env1''"
        "\<lparr>service = ''appconfig'', resource = ''application'',
          resourceName = Some ''app1//env1''\<rparr>"
        "''app1//env1''" "[]" "''Imported''"]
    by (simp add: sample_splitArn_simps sample_splitArn_def sample_construct_throws_simps
        sample_construct_throws_def)
  show "\<exists>env s'. fromEnvironmentArn sample [''App''] ''Imported''
       ''arn:aws:appconfig:us-east-1:123456789012:application/app1/deployment/env1'' [] =
         (Inr env, s')
           \<and> applicationId env = ''app1'' \<and> environmentId env = ''env1''"
    using fromEnvironmentArn_middle_segment_unchecked [of sample "[''App'']"
        "''arn:aws:appconfig:us-east-1:123456789012:application/app1/deployment/env1''"
        "\<lparr>service = ''appconfig'', resource = ''application'',
          resourceName = Some ''app1/deployment/env1''\<rparr>"
        "''app1/deployment/env1''" "[]" "''Imported''"]
    by (simp add: sample_splitArn_simps sample_splitArn_def sample_construct_throws_simps
        sample_construct_throws_def)
qed

subsection \<open>From attributes to an ARN and back\<close>

lemma string_split_no_sep: "sep \<notin> set xs \<Longrightarrow> string_split sep xs = [xs]"
  by (induction xs) auto

lemma string_split_append:
  "sep \<notin> set xs \<Longrightarrow> string_split sep (xs @ sep # ys) = xs # string_split sep ys"
  by (induction xs) auto

lemma string_split_resource_name:
  assumes "CHR ''/'' \<notin> set a" and "CHR ''/'' \<notin> set e"
  shows "string_split (CHR ''/'') (a @ ''/environment/'' @ e) = [a, ''environment'', e]"
proof -
  have "string_split (CHR ''/'') (''environment'' @ CHR ''/'' # e) = [''environment'', e]"
    using assms(2) by (subst string_split_append) (simp_all add: string_split_no_sep)
  then show ?thesis
    using string_split_append [OF assms(1), of "''environment/'' @ e"] by simp
qed

text \<open>
  Claim C4, as amended.  For every pair of non-empty strings \<open>(appId, envId)\<close> without
  a slash, on a stack whose \<^verbatim>\<open>splitArn\<close> reads back the resource name that its
  \<^verbatim>\<open>formatArn\<close> was given: the import by attributes formats the ARN of
  \<open>appId/environment/envId\<close>, and importing that ARN again (in a scope that accepts the
  construct) succeeds with the same \<open>(appId, envId)\<close> pair and the same ARN.
\<close>

theorem import_roundtrip:
  assumes "appId \<noteq> []" and "envId \<noteq> []"
    and "CHR ''/'' \<notin> set appId" and "CHR ''/'' \<notin> set envId"
    and "app_applicationId (attr_application attr) = appId"
    and "attr_environmentId attr = envId"
    and "fromEnvironmentAttributes K scope id' attr s = (Inr imported, s')"
    and "splitArn (Stack_of K scope2)
           (formatArn (Stack_of K scope)
              \<lparr>service = ''appconfig'', resource = ''application'',
               resourceName = Some (appId @ ''/environment/'' @ envId)\<rparr>)
           SLASH_RESOURCE_NAME = Inr parsed"
    and "resourceName parsed = Some (appId @ ''/environment/'' @ envId)"
    and "construct_throws K s'
           (Resource (scope2 @ [id2])
              \<lparr>physicalName = None, environmentFromArn = Some (environmentArn imported)\<rparr>) = None"
  shows "\<exists>env s''. fromEnvironmentArn K scope2 id2 (environmentArn imported) s' = (Inr env, s'')
           \<and> applicationId env = appId \<and> environmentId env = envId
           \<and> applicationId imported = appId \<and> environmentId imported = envId
           \<and> environmentArn env = environmentArn imported"
proof -
  have imported:
    "environmentArn imported = formatArn (Stack_of K scope)
       \<lparr>service = ''appconfig'', resource = ''application'',
        resourceName = Some (appId @ ''/environment/'' @ envId)\<rparr>"
    "applicationId imported = appId" "environmentId imported = envId"
    using assms(5,6,7)
    by (auto simp: fromEnvironmentAttributes_def and_then_def new_construct_def Let_def
        split: option.splits)
  have segs: "string_split (CHR ''/'') (appId @ ''/environment/'' @ envId) =
      [appId, ''environment'', envId]"
    using assms(3,4) by (rule string_split_resource_name)
  show ?thesis
    using fromEnvironmentArn_segments
      [OF assms(8) [folded imported(1)] assms(9) segs assms(1,2) assms(10)] imported
    by simp
qed

theorem import_roundtrip_witness:
  "\<exists>env s''. fromEnvironmentArn sample [''App''] ''ByArn''
       ''arn:aws:appconfig:us-east-1:123456789012:application/app1/environment/env1''
       [Resource [''App'', ''ByAttributes'']
         \<lparr>physicalName = None,
          environmentFromArn =
            Some ''arn:aws:appconfig:us-east-1:123456789012:application/app1/environment/env1''\<rparr>]
       = (Inr env, s'')
     \<and> applicationId env = ''app1'' \<and> environmentId env = ''env1''
     \<and> environmentArn env =
         ''arn:aws:appconfig:us-east-1:123456789012:application/app1/environment/env1''"
  using import_roundtrip [of "''app1''" "''env1''"
      "\<lparr>attr_application = \<lparr>app_applicationId = ''app1''\<rparr>, attr_environmentId = ''env1'',
        attr_name = None, attr_description = None, attr_monitors = None\<rparr>"
      sample "[''App'']" "''ByAttributes''" "[]"
      "\<lparr>application = Some \<lparr>app_applicationId = ''app1''\<rparr>, applicationId = ''app1'',
          name = None, description = None, monitors = None, environmentId = ''env1'',
          environmentArn =
            ''arn:aws:appconfig:us-east-1:123456789012:application/app1/environment/env1'',
          extensible = None\<rparr>"
      "[Resource [''App'', ''ByAttributes'']
         \<lparr>physicalName = None,
          environmentFromArn =
            Some ''arn:aws:appconfig:us-east-1:123456789012:application/app1/environment/env1''\<rparr>]"
      "[''App'']"
      "\<lparr>service = ''appconfig'', resource = ''application'',
        resourceName = Some ''app1/environment/env1''\<rparr>"
      "''ByArn''"]
  by (simp add: Let_def fromEnvironmentAttributes_def and_then_def
      new_construct_def sample_splitArn_simps sample_splitArn_def sample_formatArn_simps
      sample_formatArn_def sample_construct_throws_simps sample_construct_throws_def)

text \<open>
  The claim as written, for \<^emph>\<open>every\<close> pair of strings, fails: with the empty
  application id, or with one that holds a slash, the import by attributes formats
  an ARN that the import by ARN rejects.
\<close>

theorem import_roundtrip_counterexample:
  "fst (fromEnvironmentAttributes sample [''App''] ''ByAttributes''
       \<lparr>attr_application = \<lparr>app_applicationId = ''''\<rparr>, attr_environmentId = ''env1'',
        attr_name = None, attr_description = None, attr_monitors = None\<rparr> []) =
     Inr \<lparr>application = Some \<lparr>app_applicationId = ''''\<rparr>, applicationId = '''',
          name = None, description = None, monitors = None, environmentId = ''env1'',
          environmentArn =
            ''arn:aws:appconfig:us-east-1:123456789012:application//environment/env1'',
          extensible = None\<rparr>
   \<and> fst (fromEnvironmentArn sample [''App''] ''ByArn''
       ''arn:aws:appconfig:us-east-1:123456789012:application//environment/env1'' []) =
     Inl (Error ''Missing required parameters for environment ARN: format should be /$/{applicationId}/environment//$/{environmentId}'')
   \<and> fst (fromEnvironmentAttributes sample [''App''] ''ByAttributes''
       \<lparr>attr_application = \<lparr>app_applicationId = ''app/1''\<rparr>, attr_environmentId = ''env1'',
        attr_name = None, attr_description = None, attr_monitors = None\<rparr> []) =
     Inr \<lparr>application = Some \<lparr>app_applicationId = ''app/1''\<rparr>, applicationId = ''app/1'',
          name = None, description = None, monitors = None, environmentId = ''env1'',
          environmentArn =
            ''arn:aws:appconfig:us-east-1:123456789012:application/app/1/environment/env1'',
          extensible = None\<rparr>
   \<and> fst (fromEnvironmentArn sample [''App''] ''ByArn''
       ''arn:aws:appconfig:us-east-1:123456789012:application/app/1/environment/env1'' []) =
     Inl (Error ''Missing required parameters for environment ARN: format should be /$/{applicationId}/environment//$/{environmentId}'')"
  by (simp add: Let_def fromEnvironmentAttributes_def fromEnvironmentArn_def and_then_def
      new_construct_def sample_splitArn_simps sample_splitArn_def sample_formatArn_simps
      sample_formatArn_def sample_construct_throws_simps sample_construct_throws_def)

subsection \<open>Sequencing, and what one collaborator call leaves in the trace\<close>

lemma and_then_Inr:
  "and_then m f s = (Inr y, s') \<longleftrightarrow> (\<exists>x s1. m s = (Inr x, s1) \<and> f x s1 = (Inr y, s'))"
  by (auto simp: and_then_def split: prod.splits sum.splits)

lemma and_then_Inl:
  "and_then m f s = (Inl e, s') \<longleftrightarrow>
     m s = (Inl e, s') \<or> (\<exists>x s1. m s = (Inr x, s1) \<and> f x s1 = (Inl e, s'))"
  by (auto simp: and_then_def split: prod.splits sum.splits)

lemma new_construct_Inr:
  "new_construct K c s = (Inr u, s') \<longleftrightarrow> construct_throws K s c = None \<and> s' = s @ [c]"
  by (auto simp: new_construct_def split: option.splits)

lemma new_construct_Inl:
  "new_construct K c s = (Inl e, s') \<longleftrightarrow> construct_throws K s c = Some e \<and> s' = s"
  by (auto simp: new_construct_def split: option.splits)

lemma createAlarmRole_Inr:
  "createAlarmRole K this a i s = (Inr role, s') \<longleftrightarrow>
     construct_throws K s (alarm_role this a i) = None
     \<and> role = \<lparr>roleArn = Role_roleArn K (this @ [''Role'' @ string_of_nat i])\<rparr>
     \<and> s' = s @ [alarm_role this a i]"
  by (auto simp: createAlarmRole_def Let_def and_then_Inr new_construct_Inr)

lemma createAlarmRole_Inl:
  "createAlarmRole K this a i s = (Inl e, s') \<longleftrightarrow>
     construct_throws K s (alarm_role this a i) = Some e \<and> s' = s"
  by (auto simp: createAlarmRole_def Let_def and_then_Inl new_construct_Inl new_construct_Inr)

lemma monitor_entry_Inr:
  "monitor_entry K this m i s = (Inr entry, s') \<longleftrightarrow>
     (supplies_role m
        \<and> entry = \<lparr>cfn_alarmArn = alarmArn (alarm m),
                    cfn_alarmRoleArn = roleArn (the (alarmRole m))\<rparr>
        \<and> s' = s)
   \<or> (\<not> supplies_role m
        \<and> construct_throws K s (alarm_role this (alarmArn (alarm m)) i) = None
        \<and> entry = \<lparr>cfn_alarmArn = alarmArn (alarm m),
                    cfn_alarmRoleArn = Role_roleArn K (this @ [''Role'' @ string_of_nat i])\<rparr>
        \<and> s' = s @ [alarm_role this (alarmArn (alarm m)) i])"
  by (cases "alarmRole m")
     (auto simp: monitor_entry_def Let_def and_then_Inr createAlarmRole_Inr)

lemma monitor_entry_Inl:
  "monitor_entry K this m i s = (Inl e, s') \<Longrightarrow> s' = s"
  by (cases "alarmRole m")
     (auto simp: monitor_entry_def Let_def and_then_Inl createAlarmRole_Inl createAlarmRole_Inr
       split: if_splits)

subsection \<open>Role ids: the decimal digits tell the indices apart\<close>

lemma digit_inj: "a < 10 \<Longrightarrow> b < 10 \<Longrightarrow> digit a = digit b \<Longrightarrow> a = b"
proof -
  assume "a < 10" "b < 10" "digit a = digit b"
  have d: "distinct ''0123456789''" by simp
  have "length ''0123456789'' = 10" by simp
  with \<open>a < 10\<close> \<open>b < 10\<close> \<open>digit a = digit b\<close> d show "a = b"
    unfolding digit_def by (metis nth_eq_iff_index_eq)
qed

lemma string_of_nat_not_Nil: "string_of_nat n \<noteq> []"
  by (subst string_of_nat.simps) simp

lemma string_of_nat_inj: "string_of_nat n = string_of_nat m \<Longrightarrow> n = m"
proof (induction n arbitrary: m rule: string_of_nat.induct)
  case (1 n)
  show ?case
  proof (cases "n < 10")
    case True
    then have n: "string_of_nat n = [digit n]" by (subst string_of_nat.simps) simp
    show ?thesis
    proof (cases "m < 10")
      case True
      then have "string_of_nat m = [digit m]" by (subst string_of_nat.simps) simp
      with n "1.prems" have "digit n = digit m" by simp
      with \<open>n < 10\<close> \<open>m < 10\<close> show ?thesis by (rule digit_inj)
    next
      case False
      then have "string_of_nat m = string_of_nat (m div 10) @ [digit (m mod 10)]"
        by (subst string_of_nat.simps) simp
      with n "1.prems" string_of_nat_not_Nil [of "m div 10"] show ?thesis
        by (cases "string_of_nat (m div 10)") auto
    qed
  next
    case False
    then have n: "string_of_nat n = string_of_nat (n div 10) @ [digit (n mod 10)]"
      by (subst string_of_nat.simps) simp
    show ?thesis
    proof (cases "m < 10")
      case True
      then have "string_of_nat m = [digit m]" by (subst string_of_nat.simps) simp
      with n "1.prems" string_of_nat_not_Nil [of "n div 10"] show ?thesis
        by (cases "string_of_nat (n div 10)") auto
    next
      case m: False
      then have "string_of_nat m = string_of_nat (m div 10) @ [digit (m mod 10)]"
        by (subst string_of_nat.simps) simp
      with n "1.prems" have eq: "string_of_nat (n div 10) = string_of_nat (m div 10)"
        and dg: "digit (n mod 10) = digit (m mod 10)" by simp_all
      from "1.IH" [OF False eq] have "n div 10 = m div 10" .
      moreover from dg have "n mod 10 = m mod 10" by (intro digit_inj) simp_all
      ultimately show ?thesis by (metis div_mult_mod_eq)
    qed
  qed
qed

subsection \<open>The monitors\<close>

text \<open>Whatever happens, mapping the monitors only ever adds roles to the trace.\<close>

lemma monitors_map_trace:
  "\<exists>evs. snd (monitors_map K this ms k s) = s @ evs \<and> (\<forall>ev\<in>set evs. \<exists>p rp. ev = Role p rp)"
proof (induction ms arbitrary: k s)
  case Nil
  then show ?case by simp
next
  case (Cons m ms)
  show ?case
  proof (cases "monitor_entry K this m k s")
    case (Pair r s1)
    show ?thesis
    proof (cases r)
      case (Inl e)
      with Pair have "s1 = s" by (auto dest: monitor_entry_Inl)
      with Pair Inl show ?thesis by (simp add: and_then_def)
    next
      case (Inr entry)
      with Pair have s1: "s1 = s \<or> (\<exists>p rp. s1 = s @ [Role p rp])"
        by (auto simp: monitor_entry_Inr)
      from Cons.IH [of "Suc k" s1] obtain evs where
        evs: "snd (monitors_map K this ms (Suc k) s1) = s1 @ evs"
          "\<forall>ev\<in>set evs. \<exists>p rp. ev = Role p rp" by blast
      have "snd (monitors_map K this (m # ms) k s) = s1 @ evs"
        using Pair Inr evs(1)
        by (cases "monitors_map K this ms (Suc k) s1")
           (auto simp: and_then_def split: sum.splits)
      with s1 evs(2) show ?thesis by auto
    qed
  qed
qed

text \<open>
  When the mapping succeeds, the entries stand in the order of the monitors; a role was
  registered exactly for the monitors that supply none (or one with an empty ARN), under
  the id \<^verbatim>\<open>Role<index>\<close>.
\<close>

lemma monitors_map_Inr:
  assumes "monitors_map K this ms k s = (Inr entries, s')"
  shows "length entries = length ms \<and> (\<exists>evs. s' = s @ evs
     \<and> (\<forall>ev\<in>set evs. \<exists>i<length ms. \<not> supplies_role (ms ! i)
            \<and> ev = alarm_role this (alarmArn (alarm (ms ! i))) (k + i))
     \<and> (\<forall>i<length ms.
           (supplies_role (ms ! i) \<longrightarrow>
              entries ! i = \<lparr>cfn_alarmArn = alarmArn (alarm (ms ! i)),
                             cfn_alarmRoleArn = roleArn (the (alarmRole (ms ! i)))\<rparr>)
         \<and> (\<not> supplies_role (ms ! i) \<longrightarrow>
              entries ! i = \<lparr>cfn_alarmArn = alarmArn (alarm (ms ! i)),
                             cfn_alarmRoleArn =
                               Role_roleArn K (this @ [''Role'' @ string_of_nat (k + i)])\<rparr>
              \<and> alarm_role this (alarmArn (alarm (ms ! i))) (k + i) \<in> set evs)))"
  using assms
proof (induction ms arbitrary: k s entries s')
  case Nil
  then show ?case by simp
next
  case (Cons m ms)
  from Cons.prems obtain entry s1 rest where
    head: "monitor_entry K this m k s = (Inr entry, s1)"
    and tail: "monitors_map K this ms (Suc k) s1 = (Inr rest, s')"
    and entries: "entries = entry # rest"
    by (auto simp: and_then_Inr)
  from Cons.IH [OF tail] obtain evs where
    len: "length rest = length ms" and s': "s' = s1 @ evs"
    and evs: "\<forall>ev\<in>set evs. \<exists>i<length ms. \<not> supplies_role (ms ! i)
            \<and> ev = alarm_role this (alarmArn (alarm (ms ! i))) (Suc k + i)"
    and rest: "\<forall>i<length ms.
           (supplies_role (ms ! i) \<longrightarrow>
              rest ! i = \<lparr>cfn_alarmArn = alarmArn (alarm (ms ! i)),
                             cfn_alarmRoleArn = roleArn (the (alarmRole (ms ! i)))\<rparr>)
         \<and> (\<not> supplies_role (ms ! i) \<longrightarrow>
              rest ! i = \<lparr>cfn_alarmArn = alarmArn (alarm (ms ! i)),
                             cfn_alarmRoleArn =
                               Role_roleArn K (this @ [''Role'' @ string_of_nat (Suc k + i)])\<rparr>
              \<and> alarm_role this (alarmArn (alarm (ms ! i))) (Suc k + i) \<in> set evs)"
    by blast
  define hd_evs where "hd_evs = (if supplies_role m then [] else [alarm_role this (alarmArn (alarm m)) k])"
  from head have s1: "s1 = s @ hd_evs"
    and entry: "supplies_role m \<Longrightarrow> entry = \<lparr>cfn_alarmArn = alarmArn (alarm m),
                    cfn_alarmRoleArn = roleArn (the (alarmRole m))\<rparr>"
       "\<not> supplies_role m \<Longrightarrow> entry = \<lparr>cfn_alarmArn = alarmArn (alarm m),
                    cfn_alarmRoleArn = Role_roleArn K (this @ [''Role'' @ string_of_nat k])\<rparr>"
    unfolding hd_evs_def monitor_entry_Inr by auto
  have 1: "length entries = length (m # ms)" using entries len by simp
  have 2: "s' = s @ (hd_evs @ evs)" using s' s1 by simp
  have 3: "\<forall>ev\<in>set (hd_evs @ evs). \<exists>i<length (m # ms). \<not> supplies_role ((m # ms) ! i)
            \<and> ev = alarm_role this (alarmArn (alarm ((m # ms) ! i))) (k + i)"
  proof
    fix ev assume "ev \<in> set (hd_evs @ evs)"
    then consider "ev \<in> set hd_evs" | "ev \<in> set evs" by auto
    then show "\<exists>i<length (m # ms). \<not> supplies_role ((m # ms) ! i)
            \<and> ev = alarm_role this (alarmArn (alarm ((m # ms) ! i))) (k + i)"
    proof cases
      case 1
      then have "\<not> supplies_role m" "ev = alarm_role this (alarmArn (alarm m)) k"
        unfolding hd_evs_def by (auto split: if_splits)
      then show ?thesis by (intro exI [of _ 0]) simp
    next
      case 2
      with evs obtain i where "i < length ms" "\<not> supplies_role (ms ! i)"
          "ev = alarm_role this (alarmArn (alarm (ms ! i))) (Suc k + i)" by blast
      then show ?thesis by (intro exI [of _ "Suc i"]) simp
    qed
  qed
  have 4: "\<forall>i<length (m # ms).
           (supplies_role ((m # ms) ! i) \<longrightarrow>
              entries ! i = \<lparr>cfn_alarmArn = alarmArn (alarm ((m # ms) ! i)),
                             cfn_alarmRoleArn = roleArn (the (alarmRole ((m # ms) ! i)))\<rparr>)
         \<and> (\<not> supplies_role ((m # ms) ! i) \<longrightarrow>
              entries ! i = \<lparr>cfn_alarmArn = alarmArn (alarm ((m # ms) ! i)),
                             cfn_alarmRoleArn =
                               Role_roleArn K (this @ [''Role'' @ string_of_nat (k + i)])\<rparr>
              \<and> alarm_role this (alarmArn (alarm ((m # ms) ! i))) (k + i) \<in> set (hd_evs @ evs))"
  proof (intro allI impI)
    fix i assume i: "i < length (m # ms)"
    show "(supplies_role ((m # ms) ! i) \<longrightarrow>
              entries ! i = \<lparr>cfn_alarmArn = alarmArn (alarm ((m # ms) ! i)),
                             cfn_alarmRoleArn = roleArn (the (alarmRole ((m # ms) ! i)))\<rparr>)
         \<and> (\<not> supplies_role ((m # ms) ! i) \<longrightarrow>
              entries ! i = \<lparr>cfn_alarmArn = alarmArn (alarm ((m # ms) ! i)),
                             cfn_alarmRoleArn =
                               Role_roleArn K (this @ [''Role'' @ string_of_nat (k + i)])\<rparr>
              \<and> alarm_role this (alarmArn (alarm ((m # ms) ! i))) (k + i) \<in> set (hd_evs @ evs))"
    proof (cases i)
      case 0
      then show ?thesis using entry entries unfolding hd_evs_def by auto
    next
      case (Suc j)
      with i have "j < length ms" by simp
      with rest Suc entries show ?thesis by auto
    qed
  qed
  from 1 2 3 4 show ?case by blast
qed

subsection \<open>The constructor, step by step\<close>

lemma optional_monitors_map_trace:
  "\<exists>evs. snd (optional_monitors_map K this ms s) = s @ evs
     \<and> (\<forall>ev\<in>set evs. \<exists>p rp. ev = Role p rp)"
proof (cases ms)
  case None
  then show ?thesis by (simp add: optional_monitors_map_def)
next
  case (Some l)
  from monitors_map_trace [of K this l 0 s] obtain evs where
    "snd (monitors_map K this l 0 s) = s @ evs" "\<forall>ev\<in>set evs. \<exists>p rp. ev = Role p rp"
    by blast
  with Some show ?thesis
    by (cases "monitors_map K this l 0 s")
       (auto simp: optional_monitors_map_def and_then_def split: sum.splits)
qed

lemma optional_monitors_map_Inr:
  "optional_monitors_map K this ms s = (Inr es, s') \<longleftrightarrow>
     (ms = None \<and> es = None \<and> s' = s)
   \<or> (\<exists>l entries. ms = Some l \<and> es = Some entries
         \<and> monitors_map K this l 0 s = (Inr entries, s'))"
  by (cases ms) (auto simp: optional_monitors_map_def and_then_Inr)

lemma Environment_Inr:
  assumes "Environment K scope id' props s = (Inr env, s')"
  obtains entries s2 where
    "construct_throws K s
       (Resource (scope @ [id']) \<lparr>physicalName = props_name props, environmentFromArn = None\<rparr>) = None"
    "optional_monitors_map K (scope @ [id']) (props_monitors props)
       (s @ [Resource (scope @ [id'])
               \<lparr>physicalName = props_name props, environmentFromArn = None\<rparr>]) = (Inr entries, s2)"
    "s' = s2 @ [CfnEnvironment (scope @ [id', ''Resource''])
                  \<lparr>cfn_applicationId = app_applicationId (props_application props),
                   cfn_name = resolved_name K (scope @ [id']) (props_name props),
                   cfn_description = props_description props,
                   cfn_monitors = entries\<rparr>,
                AddExistingEnvironment (props_application props) env]"
    "env = \<lparr>application = Some (props_application props),
            applicationId = app_applicationId (props_application props),
            name = Some (resolved_name K (scope @ [id']) (props_name props)),
            description = props_description props,
            monitors = props_monitors props,
            environmentId = CfnEnvironment_ref K (scope @ [id', ''Resource'']),
            environmentArn = formatArn (Stack_of K (scope @ [id']))
              \<lparr>service = ''appconfig'', resource = ''application'',
               resourceName = Some (app_applicationId (props_application props) @ ''/environment/''
                  @ CfnEnvironment_ref K (scope @ [id', ''Resource'']))\<rparr>,
            extensible = Some (ExtensibleBase_new scope
              (formatArn (Stack_of K (scope @ [id']))
                \<lparr>service = ''appconfig'', resource = ''application'',
                 resourceName = Some (app_applicationId (props_application props) @ ''/environment/''
                    @ CfnEnvironment_ref K (scope @ [id', ''Resource'']))\<rparr>)
              (Some (resolved_name K (scope @ [id']) (props_name props))))\<rparr>"
  using assms
  by (auto simp: Environment_def Let_def and_then_Inr new_construct_Inr)

lemma Environment_Inl:
  assumes "Environment K scope id' props s = (Inl e, s')"
  shows "\<exists>evs. s' = s @ evs \<and> (\<forall>ev\<in>set evs. \<not> is_AddExistingEnvironment ev)"
proof -
  let ?r = "Resource (scope @ [id']) \<lparr>physicalName = props_name props, environmentFromArn = None\<rparr>"
  from optional_monitors_map_trace [of K "scope @ [id']" "props_monitors props" "s @ [?r]"]
  obtain evs where evs:
    "snd (optional_monitors_map K (scope @ [id']) (props_monitors props) (s @ [?r])) = s @ [?r] @ evs"
    "\<forall>ev\<in>set evs. \<exists>p rp. ev = Role p rp" by auto
  from assms consider "s' = s"
    | "s' = snd (optional_monitors_map K (scope @ [id']) (props_monitors props) (s @ [?r]))"
    by (auto simp: Environment_def Let_def and_then_Inl and_then_Inr new_construct_Inl
        new_construct_Inr)
  then show ?thesis
  proof cases
    case 1
    then show ?thesis by simp
  next
    case 2
    with evs have "s' = s @ (?r # evs)" by simp
    moreover have "\<forall>ev\<in>set (?r # evs). \<not> is_AddExistingEnvironment ev"
      using evs(2) by auto
    ultimately show ?thesis by blast
  qed
qed

lemma Environment_Inr_trace:
  assumes "Environment K scope id' props s = (Inr env, s')"
  shows "\<exists>evs d. s' = s @ evs @ [CfnEnvironment (scope @ [id', ''Resource'']) d,
                     AddExistingEnvironment (props_application props) env]
           \<and> (\<forall>ev\<in>set evs. \<not> is_AddExistingEnvironment ev)"
proof -
  let ?r = "Resource (scope @ [id']) \<lparr>physicalName = props_name props, environmentFromArn = None\<rparr>"
  from assms obtain entries s2 d where
    m: "optional_monitors_map K (scope @ [id']) (props_monitors props) (s @ [?r]) = (Inr entries, s2)"
    and s': "s' = s2 @ [CfnEnvironment (scope @ [id', ''Resource'']) d,
                AddExistingEnvironment (props_application props) env]"
    by (rule Environment_Inr)
  from optional_monitors_map_trace [of K "scope @ [id']" "props_monitors props" "s @ [?r]"] m
  obtain evs where evs: "s2 = s @ [?r] @ evs" "\<forall>ev\<in>set evs. \<exists>p rp. ev = Role p rp" by auto
  have "s' = s @ (?r # evs) @ [CfnEnvironment (scope @ [id', ''Resource'']) d,
                AddExistingEnvironment (props_application props) env]"
    using s' evs(1) by simp
  moreover have "\<forall>ev\<in>set (?r # evs). \<not> is_AddExistingEnvironment ev"
    using evs(2) by auto
  ultimately show ?thesis by blast
qed

lemma Environment_monitors:
  assumes "Environment K scope id' props s = (Inr env, s')"
    and "props_monitors props = Some ms"
  obtains entries roles where
    "s' = s @ [Resource (scope @ [id'])
                 \<lparr>physicalName = props_name props, environmentFromArn = None\<rparr>] @ roles @
           [CfnEnvironment (scope @ [id', ''Resource''])
              \<lparr>cfn_applicationId = app_applicationId (props_application props),
               cfn_name = resolved_name K (scope @ [id']) (props_name props),
               cfn_description = props_description props,
               cfn_monitors = Some entries\<rparr>,
            AddExistingEnvironment (props_application props) env]"
    "length entries = length ms"
    "\<forall>ev\<in>set roles. \<exists>i<length ms. \<not> supplies_role (ms ! i)
            \<and> ev = alarm_role (scope @ [id']) (alarmArn (alarm (ms ! i))) i"
    "\<forall>i<length ms.
           (supplies_role (ms ! i) \<longrightarrow>
              entries ! i = \<lparr>cfn_alarmArn = alarmArn (alarm (ms ! i)),
                             cfn_alarmRoleArn = roleArn (the (alarmRole (ms ! i)))\<rparr>)
         \<and> (\<not> supplies_role (ms ! i) \<longrightarrow>
              entries ! i = \<lparr>cfn_alarmArn = alarmArn (alarm (ms ! i)),
                             cfn_alarmRoleArn =
                               Role_roleArn K (scope @ [id', ''Role'' @ string_of_nat i])\<rparr>
              \<and> alarm_role (scope @ [id']) (alarmArn (alarm (ms ! i))) i \<in> set roles)"
proof -
  let ?r = "Resource (scope @ [id']) \<lparr>physicalName = props_name props, environmentFromArn = None\<rparr>"
  from assms(1) obtain es s2 where
    m: "optional_monitors_map K (scope @ [id']) (props_monitors props) (s @ [?r]) = (Inr es, s2)"
    and s': "s' = s2 @ [CfnEnvironment (scope @ [id', ''Resource''])
                  \<lparr>cfn_applicationId = app_applicationId (props_application props),
                   cfn_name = resolved_name K (scope @ [id']) (props_name props),
                   cfn_description = props_description props,
                   cfn_monitors = es\<rparr>,
                AddExistingEnvironment (props_application props) env]"
    by (rule Environment_Inr)
  from m assms(2) obtain entries where es: "es = Some entries"
    and mm: "monitors_map K (scope @ [id']) ms 0 (s @ [?r]) = (Inr entries, s2)"
    by (auto simp: optional_monitors_map_Inr)
  from monitors_map_Inr [OF mm] obtain roles where
    "length entries = length ms" "s2 = (s @ [?r]) @ roles"
    "\<forall>ev\<in>set roles. \<exists>i<length ms. \<not> supplies_role (ms ! i)
            \<and> ev = alarm_role (scope @ [id']) (alarmArn (alarm (ms ! i))) (0 + i)"
    "\<forall>i<length ms.
           (supplies_role (ms ! i) \<longrightarrow>
              entries ! i = \<lparr>cfn_alarmArn = alarmArn (alarm (ms ! i)),
                             cfn_alarmRoleArn = roleArn (the (alarmRole (ms ! i)))\<rparr>)
         \<and> (\<not> supplies_role (ms ! i) \<longrightarrow>
              entries ! i = \<lparr>cfn_alarmArn = alarmArn (alarm (ms ! i)),
                             cfn_alarmRoleArn =
                               Role_roleArn K ((scope @ [id']) @ [''Role'' @ string_of_nat (0 + i)])\<rparr>
              \<and> alarm_role (scope @ [id']) (alarmArn (alarm (ms ! i))) (0 + i) \<in> set roles)"
    by blast
  with s' es show thesis by (intro that [of roles entries]) simp_all
qed

subsection \<open>The sample construction, evaluated\<close>

lemma string_of_nat_0: "string_of_nat 0 = ''0''"
  by (simp add: string_of_nat.simps digit_def)

lemma string_of_nat_1: "string_of_nat (Suc 0) = ''1''"
  by (simp add: string_of_nat.simps digit_def)

lemma sample_Environment:
  "Environment sample [''App''] ''Env'' sample_props [] =
     (Inr sample_environment,
      [Resource [''App'', ''Env''] \<lparr>physicalName = Some ''prod'', environmentFromArn = None\<rparr>,
       Role [''App'', ''Env'', ''Role0'']
         \<lparr>roleName = GENERATE_IF_NEEDED,
          assumedBy = ServicePrincipal ''appconfig.amazonaws.com'',
          inlinePolicies =
            [(''AllowAppConfigMonitorAlarmPolicy'',
              \<lparr>statements =
                 [\<lparr>effect = ALLOW,
                   actions = [''cloudwatch:DescribeAlarms''],
                   resources = [''arn:aws:cloudwatch:us-east-1:123456789012:alarm:A1'']\<rparr>]\<rparr>)]\<rparr>,
       CfnEnvironment [''App'', ''Env'', ''Resource'']
         \<lparr>cfn_applicationId = ''app1'',
          cfn_name = ''prod'',
          cfn_description = None,
          cfn_monitors = Some
            [\<lparr>cfn_alarmArn = ''arn:aws:cloudwatch:us-east-1:123456789012:alarm:A1'',
              cfn_alarmRoleArn = ''arn:aws:iam::123456789012:role/App-Env-Role0''\<rparr>,
             \<lparr>cfn_alarmArn = ''arn:aws:cloudwatch:us-east-1:123456789012:alarm:A2'',
              cfn_alarmRoleArn = ''arn:aws:iam::123456789012:role/Mine''\<rparr>]\<rparr>,
       AddExistingEnvironment \<lparr>app_applicationId = ''app1''\<rparr> sample_environment])"
  by (simp add: Environment_def Let_def and_then_def new_construct_def optional_monitors_map_def
      monitor_entry_def createAlarmRole_def string_of_nat_0 string_of_nat_1
      sample_props_def sample_environment_def ExtensibleBase_new_def
      sample_def sample_Stack_def sample_formatArn_def sample_construct_throws_def)

lemma sample_Role_roleArn_simps:
  "Role_roleArn sample p = ''arn:aws:iam::123456789012:role/'' @ join ''-'' p"
  by (simp add: sample_def)


lemma sample_props_application:
  "props_application sample_props = \<lparr>app_applicationId = ''app1''\<rparr>"
  by (simp add: sample_props_def)

lemma sample_props_monitors:
  "props_monitors sample_props = Some
        [\<lparr>alarm = \<lparr>alarmArn = ''arn:aws:cloudwatch:us-east-1:123456789012:alarm:A1''\<rparr>,
          alarmRole = None\<rparr>,
         \<lparr>alarm = \<lparr>alarmArn = ''arn:aws:cloudwatch:us-east-1:123456789012:alarm:A2''\<rparr>,
          alarmRole = Some \<lparr>roleArn = ''arn:aws:iam::123456789012:role/Mine''\<rparr>\<rparr>]"
  by (simp add: sample_props_def)

lemma sample_Environment_duplicate:
  "Environment sample [''App''] ''Env'' sample_props
     [Resource [''App'', ''Env''] \<lparr>physicalName = None, environmentFromArn = None\<rparr>] =
   (Inl (Error ''There is already a Construct with this name''),
    [Resource [''App'', ''Env''] \<lparr>physicalName = None, environmentFromArn = None\<rparr>])"
  by (simp add: Environment_def Let_def and_then_def new_construct_def
      sample_props_def sample_def sample_construct_throws_def)

lemma sample_Environment_refused:
  "Environment sample_refusing [''App''] ''Env'' sample_props [] =
   (Inl (Error ''The resource sink refuses the descriptor''),
    [Resource [''App'', ''Env''] \<lparr>physicalName = Some ''prod'', environmentFromArn = None\<rparr>,
     Role [''App'', ''Env'', ''Role0'']
       \<lparr>roleName = GENERATE_IF_NEEDED,
        assumedBy = ServicePrincipal ''appconfig.amazonaws.com'',
        inlinePolicies =
          [(''AllowAppConfigMonitorAlarmPolicy'',
            \<lparr>statements =
               [\<lparr>effect = ALLOW,
                 actions = [''cloudwatch:DescribeAlarms''],
                 resources = [''arn:aws:cloudwatch:us-east-1:123456789012:alarm:A1'']\<rparr>]\<rparr>)]\<rparr>])"
  by (simp add: Environment_def Let_def and_then_def new_construct_def optional_monitors_map_def
      monitor_entry_def createAlarmRole_def string_of_nat_0 string_of_nat_1
      sample_props_def sample_refusing_def sample_def)

subsection \<open>Registration with the parent application\<close>

text \<open>
  Claim C7.  Every construction that completes has called
  \<^verbatim>\<open>application.addExistingEnvironment(this)\<close> exactly once, as its last collaborator
  call: the calls it made are some calls that are no registration, then the hand-over of
  the descriptor to \<^verbatim>\<open>CfnEnvironment\<close>, then the registration, and the environment
  registered carries the sink's reference as \<open>environmentId\<close> and the ARN formatted
  from it.  Every construction that throws, at whichever collaborator, has made no
  registration: the registrations in the trace are those that were there before.
\<close>

theorem Environment_registers_once:
  "(\<forall>env s'. Environment K scope id' props s = (Inr env, s') \<longrightarrow>
      (\<exists>evs d. s' = s @ evs @ [CfnEnvironment (scope @ [id', ''Resource'']) d,
                              AddExistingEnvironment (props_application props) env]
         \<and> (\<forall>ev\<in>set evs. \<not> is_AddExistingEnvironment ev))
      \<and> length (filter is_AddExistingEnvironment (drop (length s) s')) = 1
      \<and> environmentId env = CfnEnvironment_ref K (scope @ [id', ''Resource''])
      \<and> environmentArn env = formatArn (Stack_of K (scope @ [id']))
           \<lparr>service = ''appconfig'', resource = ''application'',
            resourceName = Some (applicationId env @ ''/environment/'' @ environmentId env)\<rparr>)
 \<and> (\<forall>e s'. Environment K scope id' props s = (Inl e, s') \<longrightarrow>
      (\<exists>evs. s' = s @ evs \<and> (\<forall>ev\<in>set evs. \<not> is_AddExistingEnvironment ev))
      \<and> filter is_AddExistingEnvironment s' = filter is_AddExistingEnvironment s)"
proof (intro conjI allI impI)
  fix env s' assume ok: "Environment K scope id' props s = (Inr env, s')"
  from Environment_Inr_trace [OF ok]
  show tr: "\<exists>evs d. s' = s @ evs @ [CfnEnvironment (scope @ [id', ''Resource'']) d,
                              AddExistingEnvironment (props_application props) env]
         \<and> (\<forall>ev\<in>set evs. \<not> is_AddExistingEnvironment ev)" .
  then obtain evs d where "s' = s @ evs @ [CfnEnvironment (scope @ [id', ''Resource'']) d,
                              AddExistingEnvironment (props_application props) env]"
     "\<forall>ev\<in>set evs. \<not> is_AddExistingEnvironment ev" by blast
  then show "length (filter is_AddExistingEnvironment (drop (length s) s')) = 1"
    by (simp add: filter_empty_conv [THEN iffD2])
  from ok show "environmentId env = CfnEnvironment_ref K (scope @ [id', ''Resource''])"
    by (rule Environment_Inr) simp
  from ok show "environmentArn env = formatArn (Stack_of K (scope @ [id']))
           \<lparr>service = ''appconfig'', resource = ''application'',
            resourceName = Some (applicationId env @ ''/environment/'' @ environmentId env)\<rparr>"
    by (rule Environment_Inr) simp
next
  fix e s' assume "Environment K scope id' props s = (Inl e, s')"
  from Environment_Inl [OF this]
  show tr: "\<exists>evs. s' = s @ evs \<and> (\<forall>ev\<in>set evs. \<not> is_AddExistingEnvironment ev)" .
  then show "filter is_AddExistingEnvironment s' = filter is_AddExistingEnvironment s"
    by (auto simp: filter_empty_conv [THEN iffD2])
qed

text \<open>
  The sample construction registers once, as its last call; a construction under an id
  that is taken throws at once, and one whose descriptor the sink refuses throws after
  its role was created: neither registers.
\<close>

theorem Environment_registers_once_witness:
  "length (filter is_AddExistingEnvironment
      (snd (Environment sample [''App''] ''Env'' sample_props []))) = 1
 \<and> last (snd (Environment sample [''App''] ''Env'' sample_props [])) =
      AddExistingEnvironment \<lparr>app_applicationId = ''app1''\<rparr> sample_environment
 \<and> environmentArn sample_environment =
      ''arn:aws:appconfig:us-east-1:123456789012:application/app1/environment/App.Env.Resource''
 \<and> filter is_AddExistingEnvironment
      (snd (Environment sample [''App''] ''Env'' sample_props
         [Resource [''App'', ''Env''] \<lparr>physicalName = None, environmentFromArn = None\<rparr>])) = []
 \<and> filter is_AddExistingEnvironment
      (snd (Environment sample_refusing [''App''] ''Env'' sample_props [])) = []"
proof -
  note ok = Environment_registers_once [of sample "[''App'']" "''Env''" sample_props "[]",
      THEN conjunct1, rule_format, OF sample_Environment]
  note dup = Environment_registers_once [of sample "[''App'']" "''Env''" sample_props
      "[Resource [''App'', ''Env''] \<lparr>physicalName = None, environmentFromArn = None\<rparr>]",
      THEN conjunct2, rule_format, OF sample_Environment_duplicate]
  note refused = Environment_registers_once [of sample_refusing "[''App'']" "''Env''" sample_props "[]",
      THEN conjunct2, rule_format, OF sample_Environment_refused]
  from ok have "length (filter is_AddExistingEnvironment
      (snd (Environment sample [''App''] ''Env'' sample_props []))) = 1"
    by (simp add: sample_Environment)
  moreover from ok have "last (snd (Environment sample [''App''] ''Env'' sample_props [])) =
      AddExistingEnvironment \<lparr>app_applicationId = ''app1''\<rparr> sample_environment"
    by (simp add: sample_Environment)
  moreover from ok have "environmentArn sample_environment =
      ''arn:aws:appconfig:us-east-1:123456789012:application/app1/environment/App.Env.Resource''"
    by (simp add: sample_environment_def)
  moreover from dup have "filter is_AddExistingEnvironment
      (snd (Environment sample [''App''] ''Env'' sample_props
         [Resource [''App'', ''Env''] \<lparr>physicalName = None, environmentFromArn = None\<rparr>])) = []"
    by (simp add: sample_Environment_duplicate)
  moreover from refused have "filter is_AddExistingEnvironment
      (snd (Environment sample_refusing [''App''] ''Env'' sample_props [])) = []"
    by (simp add: sample_Environment_refused)
  ultimately show ?thesis by (intro conjI)
qed

text \<open>
  Claim C10.  Neither import path registers the environment with its parent
  application: after \<^verbatim>\<open>fromEnvironmentArn\<close> and after \<^verbatim>\<open>fromEnvironmentAttributes\<close>,
  whether they return or throw, the calls of \<^verbatim>\<open>addExistingEnvironment\<close> in the trace are
  the ones that were there before; a completed \<^verbatim>\<open>Environment\<close> constructor adds exactly
  its own.
\<close>

theorem imports_never_register:
  "filter is_AddExistingEnvironment (snd (fromEnvironmentArn K scope id' arn s)) =
     filter is_AddExistingEnvironment s
 \<and> filter is_AddExistingEnvironment (snd (fromEnvironmentAttributes K scope id' attr s)) =
     filter is_AddExistingEnvironment s
 \<and> (\<forall>env s'. Environment K scope id' props s = (Inr env, s') \<longrightarrow>
      filter is_AddExistingEnvironment s' =
        filter is_AddExistingEnvironment s @ [AddExistingEnvironment (props_application props) env])"
proof (intro conjI allI impI)
  show "filter is_AddExistingEnvironment (snd (fromEnvironmentArn K scope id' arn s)) =
     filter is_AddExistingEnvironment s"
    by (simp add: fromEnvironmentArn_def and_then_def new_construct_def Let_def
        split: sum.splits option.splits)
  show "filter is_AddExistingEnvironment (snd (fromEnvironmentAttributes K scope id' attr s)) =
     filter is_AddExistingEnvironment s"
    by (simp add: fromEnvironmentAttributes_def and_then_def new_construct_def Let_def
        split: sum.splits option.splits)
next
  fix env s' assume "Environment K scope id' props s = (Inr env, s')"
  from Environment_Inr_trace [OF this]
  show "filter is_AddExistingEnvironment s' =
        filter is_AddExistingEnvironment s @ [AddExistingEnvironment (props_application props) env]"
    by (auto simp: filter_empty_conv [THEN iffD2])
qed

theorem imports_never_register_witness:
  "filter is_AddExistingEnvironment
     (snd (fromEnvironmentArn sample [''App''] ''Imported''
        ''arn:aws:appconfig:us-east-1:123456789012:application/app1/environment/env1''
        [AddExistingEnvironment \<lparr>app_applicationId = ''app1''\<rparr> sample_environment])) =
     [AddExistingEnvironment \<lparr>app_applicationId = ''app1''\<rparr> sample_environment]
 \<and> filter is_AddExistingEnvironment
     (snd (fromEnvironmentAttributes sample [''App''] ''Imported''
        \<lparr>attr_application = \<lparr>app_applicationId = ''app1''\<rparr>, attr_environmentId = ''env1'',
         attr_name = None, attr_description = None, attr_monitors = None\<rparr>
        [AddExistingEnvironment \<lparr>app_applicationId = ''app1''\<rparr> sample_environment])) =
     [AddExistingEnvironment \<lparr>app_applicationId = ''app1''\<rparr> sample_environment]
 \<and> filter is_AddExistingEnvironment
     (snd (Environment sample [''App''] ''Env'' sample_props [])) =
     [AddExistingEnvironment \<lparr>app_applicationId = ''app1''\<rparr> sample_environment]"
proof -
  note all = imports_never_register [of sample "[''App'']" "''Imported''"
      "''arn:aws:appconfig:us-east-1:123456789012:application/app1/environment/env1''"
      "[AddExistingEnvironment \<lparr>app_applicationId = ''app1''\<rparr> sample_environment]"
      "\<lparr>attr_application = \<lparr>app_applicationId = ''app1''\<rparr>, attr_environmentId = ''env1'',
         attr_name = None, attr_description = None, attr_monitors = None\<rparr>"]
  note ctor = imports_never_register [of sample "[''App'']" "''Env''" _ "[]" _ sample_props,
      THEN conjunct2, THEN conjunct2, rule_format, OF sample_Environment]
  from all [THEN conjunct1] have 1: "filter is_AddExistingEnvironment
     (snd (fromEnvironmentArn sample [''App''] ''Imported''
        ''arn:aws:appconfig:us-east-1:123456789012:application/app1/environment/env1''
        [AddExistingEnvironment \<lparr>app_applicationId = ''app1''\<rparr> sample_environment])) =
     [AddExistingEnvironment \<lparr>app_applicationId = ''app1''\<rparr> sample_environment]" by simp
  from all [THEN conjunct2, THEN conjunct1] have 2: "filter is_AddExistingEnvironment
     (snd (fromEnvironmentAttributes sample [''App''] ''Imported''
        \<lparr>attr_application = \<lparr>app_applicationId = ''app1''\<rparr>, attr_environmentId = ''env1'',
         attr_name = None, attr_description = None, attr_monitors = None\<rparr>
        [AddExistingEnvironment \<lparr>app_applicationId = ''app1''\<rparr> sample_environment])) =
     [AddExistingEnvironment \<lparr>app_applicationId = ''app1''\<rparr> sample_environment]" by simp
  from ctor have 3: "filter is_AddExistingEnvironment
     (snd (Environment sample [''App''] ''Env'' sample_props [])) =
     [AddExistingEnvironment \<lparr>app_applicationId = ''app1''\<rparr> sample_environment]"
    by (simp add: sample_Environment sample_props_application)
  from 1 2 3 show ?thesis by (intro conjI)
qed

subsection \<open>Monitors and their roles\<close>

text \<open>
  Claim C3.  In a completed construction, for every monitor (at index \<open>i\<close>) whose
  \<^verbatim>\<open>alarmRole\<close> is absent: the descriptor handed to \<^verbatim>\<open>CfnEnvironment\<close> has, at index
  \<open>i\<close>, the monitor's alarm ARN and as \<open>alarmRoleArn\<close> the ARN of the role construct
  \<^verbatim>\<open>Role<i>\<close> (non-empty when the ARN the IAM collaborator gives that role is); that role
  was created by this construction, assumable by the service principal
  \<^verbatim>\<open>appconfig.amazonaws.com\<close>, with one inline policy of exactly one statement: effect
  \<open>ALLOW\<close>, the single action \<^verbatim>\<open>cloudwatch:DescribeAlarms\<close>, the single resource that
  monitor's alarm ARN; and no role of other properties was created under that id.
\<close>

theorem synthesized_alarm_role:
  assumes "Environment K scope id' props s = (Inr env, s')"
    and "props_monitors props = Some ms"
    and "i < length ms"
    and "alarmRole (ms ! i) = None"
  shows "\<exists>evs d entries.
           s' = s @ evs
         \<and> CfnEnvironment (scope @ [id', ''Resource'']) d \<in> set evs
         \<and> cfn_monitors d = Some entries \<and> length entries = length ms
         \<and> cfn_alarmArn (entries ! i) = alarmArn (alarm (ms ! i))
         \<and> cfn_alarmRoleArn (entries ! i) =
             Role_roleArn K (scope @ [id', ''Role'' @ string_of_nat i])
         \<and> (Role_roleArn K (scope @ [id', ''Role'' @ string_of_nat i]) \<noteq> [] \<longrightarrow>
              cfn_alarmRoleArn (entries ! i) \<noteq> [])
         \<and> Role (scope @ [id', ''Role'' @ string_of_nat i])
              \<lparr>roleName = GENERATE_IF_NEEDED,
               assumedBy = ServicePrincipal ''appconfig.amazonaws.com'',
               inlinePolicies =
                 [(''AllowAppConfigMonitorAlarmPolicy'',
                   \<lparr>statements =
                      [\<lparr>effect = ALLOW,
                        actions = [''cloudwatch:DescribeAlarms''],
                        resources = [alarmArn (alarm (ms ! i))]\<rparr>]\<rparr>)]\<rparr> \<in> set evs
         \<and> (\<forall>rp. Role (scope @ [id', ''Role'' @ string_of_nat i]) rp \<in> set evs \<longrightarrow>
               rp = \<lparr>roleName = GENERATE_IF_NEEDED,
                     assumedBy = ServicePrincipal ''appconfig.amazonaws.com'',
                     inlinePolicies =
                       [(''AllowAppConfigMonitorAlarmPolicy'',
                         \<lparr>statements =
                            [\<lparr>effect = ALLOW,
                              actions = [''cloudwatch:DescribeAlarms''],
                              resources = [alarmArn (alarm (ms ! i))]\<rparr>]\<rparr>)]\<rparr>)"
proof -
  from assms(1,2) obtain entries roles where
    s': "s' = s @ [Resource (scope @ [id'])
                 \<lparr>physicalName = props_name props, environmentFromArn = None\<rparr>] @ roles @
           [CfnEnvironment (scope @ [id', ''Resource''])
              \<lparr>cfn_applicationId = app_applicationId (props_application props),
               cfn_name = resolved_name K (scope @ [id']) (props_name props),
               cfn_description = props_description props,
               cfn_monitors = Some entries\<rparr>,
            AddExistingEnvironment (props_application props) env]"
    and len: "length entries = length ms"
    and roles: "\<forall>ev\<in>set roles. \<exists>j<length ms. \<not> supplies_role (ms ! j)
            \<and> ev = alarm_role (scope @ [id']) (alarmArn (alarm (ms ! j))) j"
    and entries: "\<forall>i<length ms.
           (supplies_role (ms ! i) \<longrightarrow>
              entries ! i = \<lparr>cfn_alarmArn = alarmArn (alarm (ms ! i)),
                             cfn_alarmRoleArn = roleArn (the (alarmRole (ms ! i)))\<rparr>)
         \<and> (\<not> supplies_role (ms ! i) \<longrightarrow>
              entries ! i = \<lparr>cfn_alarmArn = alarmArn (alarm (ms ! i)),
                             cfn_alarmRoleArn =
                               Role_roleArn K (scope @ [id', ''Role'' @ string_of_nat i])\<rparr>
              \<and> alarm_role (scope @ [id']) (alarmArn (alarm (ms ! i))) i \<in> set roles)"
    by (rule Environment_monitors)
  from assms(4) have no: "\<not> supplies_role (ms ! i)" by simp
  with entries assms(3) have
    e: "entries ! i = \<lparr>cfn_alarmArn = alarmArn (alarm (ms ! i)),
                             cfn_alarmRoleArn =
                               Role_roleArn K (scope @ [id', ''Role'' @ string_of_nat i])\<rparr>"
    and r: "alarm_role (scope @ [id']) (alarmArn (alarm (ms ! i))) i \<in> set roles" by blast+
  have only: "rp = \<lparr>roleName = GENERATE_IF_NEEDED,
                     assumedBy = ServicePrincipal ''appconfig.amazonaws.com'',
                     inlinePolicies =
                       [(''AllowAppConfigMonitorAlarmPolicy'',
                         \<lparr>statements =
                            [\<lparr>effect = ALLOW,
                              actions = [''cloudwatch:DescribeAlarms''],
                              resources = [alarmArn (alarm (ms ! i))]\<rparr>]\<rparr>)]\<rparr>"
    if "Role (scope @ [id', ''Role'' @ string_of_nat i]) rp \<in> set roles" for rp
  proof -
    from roles that obtain j where "j < length ms"
      "Role (scope @ [id', ''Role'' @ string_of_nat i]) rp =
         alarm_role (scope @ [id']) (alarmArn (alarm (ms ! j))) j" by blast
    then have "string_of_nat i = string_of_nat j" and
      rp: "rp = \<lparr>roleName = GENERATE_IF_NEEDED,
                     assumedBy = ServicePrincipal ''appconfig.amazonaws.com'',
                     inlinePolicies =
                       [(''AllowAppConfigMonitorAlarmPolicy'',
                         \<lparr>statements =
                            [\<lparr>effect = ALLOW,
                              actions = [''cloudwatch:DescribeAlarms''],
                              resources = [alarmArn (alarm (ms ! j))]\<rparr>]\<rparr>)]\<rparr>" by simp_all
    then have "i = j" by (auto dest: string_of_nat_inj)
    with rp show ?thesis by simp
  qed
  let ?d = "\<lparr>cfn_applicationId = app_applicationId (props_application props),
               cfn_name = resolved_name K (scope @ [id']) (props_name props),
               cfn_description = props_description props,
               cfn_monitors = Some entries\<rparr>"
  let ?evs = "[Resource (scope @ [id'])
                 \<lparr>physicalName = props_name props, environmentFromArn = None\<rparr>] @ roles @
           [CfnEnvironment (scope @ [id', ''Resource'']) ?d,
            AddExistingEnvironment (props_application props) env]"
  have 1: "s' = s @ ?evs" using s' by simp
  have 2: "CfnEnvironment (scope @ [id', ''Resource'']) ?d \<in> set ?evs" by simp
  have 3: "cfn_monitors ?d = Some entries" by simp
  have 4: "cfn_alarmArn (entries ! i) = alarmArn (alarm (ms ! i))" using e by simp
  have 5: "cfn_alarmRoleArn (entries ! i) =
             Role_roleArn K (scope @ [id', ''Role'' @ string_of_nat i])" using e by simp
  have 6: "Role_roleArn K (scope @ [id', ''Role'' @ string_of_nat i]) \<noteq> [] \<longrightarrow>
              cfn_alarmRoleArn (entries ! i) \<noteq> []" using 5 by simp
  have 7: "Role (scope @ [id', ''Role'' @ string_of_nat i])
              \<lparr>roleName = GENERATE_IF_NEEDED,
               assumedBy = ServicePrincipal ''appconfig.amazonaws.com'',
               inlinePolicies =
                 [(''AllowAppConfigMonitorAlarmPolicy'',
                   \<lparr>statements =
                      [\<lparr>effect = ALLOW,
                        actions = [''cloudwatch:DescribeAlarms''],
                        resources = [alarmArn (alarm (ms ! i))]\<rparr>]\<rparr>)]\<rparr> \<in> set ?evs"
    using r by simp
  have 8: "\<forall>rp. Role (scope @ [id', ''Role'' @ string_of_nat i]) rp \<in> set ?evs \<longrightarrow>
               rp = \<lparr>roleName = GENERATE_IF_NEEDED,
                     assumedBy = ServicePrincipal ''appconfig.amazonaws.com'',
                     inlinePolicies =
                       [(''AllowAppConfigMonitorAlarmPolicy'',
                         \<lparr>statements =
                            [\<lparr>effect = ALLOW,
                              actions = [''cloudwatch:DescribeAlarms''],
                              resources = [alarmArn (alarm (ms ! i))]\<rparr>]\<rparr>)]\<rparr>"
  proof (intro allI impI)
    fix rp assume "Role (scope @ [id', ''Role'' @ string_of_nat i]) rp \<in> set ?evs"
    then have "Role (scope @ [id', ''Role'' @ string_of_nat i]) rp \<in> set roles" by simp
    then show "rp = \<lparr>roleName = GENERATE_IF_NEEDED,
                     assumedBy = ServicePrincipal ''appconfig.amazonaws.com'',
                     inlinePolicies =
                       [(''AllowAppConfigMonitorAlarmPolicy'',
                         \<lparr>statements =
                            [\<lparr>effect = ALLOW,
                              actions = [''cloudwatch:DescribeAlarms''],
                              resources = [alarmArn (alarm (ms ! i))]\<rparr>]\<rparr>)]\<rparr>" by (rule only)
  qed
  show ?thesis
    apply (rule exI [of _ ?evs])
    apply (rule exI [of _ ?d])
    apply (rule exI [of _ entries])
    by (insert 1 2 3 len 4 5 6 7 8, intro conjI; assumption)
qed

theorem synthesized_alarm_role_witness:
  "\<exists>evs d entries.
     snd (Environment sample [''App''] ''Env'' sample_props []) = evs
   \<and> CfnEnvironment [''App'', ''Env'', ''Resource''] d \<in> set evs
   \<and> cfn_monitors d = Some entries
   \<and> cfn_alarmArn (entries ! 0) = ''arn:aws:cloudwatch:us-east-1:123456789012:alarm:A1''
   \<and> cfn_alarmRoleArn (entries ! 0) = ''arn:aws:iam::123456789012:role/App-Env-Role0''
   \<and> Role [''App'', ''Env'', ''Role0'']
        \<lparr>roleName = GENERATE_IF_NEEDED,
         assumedBy = ServicePrincipal ''appconfig.amazonaws.com'',
         inlinePolicies =
           [(''AllowAppConfigMonitorAlarmPolicy'',
             \<lparr>statements =
                [\<lparr>effect = ALLOW,
                  actions = [''cloudwatch:DescribeAlarms''],
                  resources = [''arn:aws:cloudwatch:us-east-1:123456789012:alarm:A1'']\<rparr>]\<rparr>)]\<rparr>
        \<in> set evs"
proof -
  from synthesized_alarm_role [OF sample_Environment sample_props_monitors, of 0]
  obtain evs d entries where
    "snd (Environment sample [''App''] ''Env'' sample_props []) = evs"
    "CfnEnvironment [''App'', ''Env'', ''Resource''] d \<in> set evs"
    "cfn_monitors d = Some entries"
    "cfn_alarmArn (entries ! 0) = ''arn:aws:cloudwatch:us-east-1:123456789012:alarm:A1''"
    "cfn_alarmRoleArn (entries ! 0) = ''arn:aws:iam::123456789012:role/App-Env-Role0''"
    "Role [''App'', ''Env'', ''Role0'']
        \<lparr>roleName = GENERATE_IF_NEEDED,
         assumedBy = ServicePrincipal ''appconfig.amazonaws.com'',
         inlinePolicies =
           [(''AllowAppConfigMonitorAlarmPolicy'',
             \<lparr>statements =
                [\<lparr>effect = ALLOW,
                  actions = [''cloudwatch:DescribeAlarms''],
                  resources = [''arn:aws:cloudwatch:us-east-1:123456789012:alarm:A1'']\<rparr>]\<rparr>)]\<rparr>
        \<in> set evs"
    by (auto simp: sample_Environment string_of_nat_0 sample_Role_roleArn_simps)
  then show ?thesis by blast
qed

text \<open>
  Claim C5, as amended.  In a completed construction, for every monitor (at index
  \<open>i\<close>) whose \<^verbatim>\<open>alarmRole\<close> is present with a non-empty \<open>roleArn\<close>: the descriptor's
  entry at index \<open>i\<close> has the monitor's alarm ARN and the supplied role's ARN, and no
  role construct \<^verbatim>\<open>Role<i>\<close> was created.
\<close>

theorem supplied_alarm_role:
  assumes "Environment K scope id' props s = (Inr env, s')"
    and "props_monitors props = Some ms"
    and "i < length ms"
    and "alarmRole (ms ! i) = Some role"
    and "roleArn role \<noteq> []"
  shows "\<exists>evs d entries.
           s' = s @ evs
         \<and> CfnEnvironment (scope @ [id', ''Resource'']) d \<in> set evs
         \<and> cfn_monitors d = Some entries \<and> length entries = length ms
         \<and> entries ! i = \<lparr>cfn_alarmArn = alarmArn (alarm (ms ! i)),
                            cfn_alarmRoleArn = roleArn role\<rparr>
         \<and> (\<forall>rp. Role (scope @ [id', ''Role'' @ string_of_nat i]) rp \<notin> set evs)"
proof -
  from assms(1,2) obtain entries roles where
    s': "s' = s @ [Resource (scope @ [id'])
                 \<lparr>physicalName = props_name props, environmentFromArn = None\<rparr>] @ roles @
           [CfnEnvironment (scope @ [id', ''Resource''])
              \<lparr>cfn_applicationId = app_applicationId (props_application props),
               cfn_name = resolved_name K (scope @ [id']) (props_name props),
               cfn_description = props_description props,
               cfn_monitors = Some entries\<rparr>,
            AddExistingEnvironment (props_application props) env]"
    and len: "length entries = length ms"
    and roles: "\<forall>ev\<in>set roles. \<exists>j<length ms. \<not> supplies_role (ms ! j)
            \<and> ev = alarm_role (scope @ [id']) (alarmArn (alarm (ms ! j))) j"
    and entries: "\<forall>i<length ms.
           (supplies_role (ms ! i) \<longrightarrow>
              entries ! i = \<lparr>cfn_alarmArn = alarmArn (alarm (ms ! i)),
                             cfn_alarmRoleArn = roleArn (the (alarmRole (ms ! i)))\<rparr>)
         \<and> (\<not> supplies_role (ms ! i) \<longrightarrow>
              entries ! i = \<lparr>cfn_alarmArn = alarmArn (alarm (ms ! i)),
                             cfn_alarmRoleArn =
                               Role_roleArn K (scope @ [id', ''Role'' @ string_of_nat i])\<rparr>
              \<and> alarm_role (scope @ [id']) (alarmArn (alarm (ms ! i))) i \<in> set roles)"
    by (rule Environment_monitors)
  from assms(4,5) have yes: "supplies_role (ms ! i)" by simp
  with entries assms(3) have
    "entries ! i = \<lparr>cfn_alarmArn = alarmArn (alarm (ms ! i)),
                             cfn_alarmRoleArn = roleArn (the (alarmRole (ms ! i)))\<rparr>" by blast
  with assms(4) have e: "entries ! i = \<lparr>cfn_alarmArn = alarmArn (alarm (ms ! i)),
                             cfn_alarmRoleArn = roleArn role\<rparr>" by simp
  have none: "Role (scope @ [id', ''Role'' @ string_of_nat i]) rp \<notin> set roles" for rp
  proof
    assume "Role (scope @ [id', ''Role'' @ string_of_nat i]) rp \<in> set roles"
    with roles obtain j where j: "\<not> supplies_role (ms ! j)"
      "Role (scope @ [id', ''Role'' @ string_of_nat i]) rp =
         alarm_role (scope @ [id']) (alarmArn (alarm (ms ! j))) j" by blast
    from j(2) have "string_of_nat i = string_of_nat j" by simp
    then have "i = j" by (rule string_of_nat_inj)
    with j(1) yes show False by blast
  qed
  let ?d = "\<lparr>cfn_applicationId = app_applicationId (props_application props),
               cfn_name = resolved_name K (scope @ [id']) (props_name props),
               cfn_description = props_description props,
               cfn_monitors = Some entries\<rparr>"
  let ?evs = "[Resource (scope @ [id'])
                 \<lparr>physicalName = props_name props, environmentFromArn = None\<rparr>] @ roles @
           [CfnEnvironment (scope @ [id', ''Resource'']) ?d,
            AddExistingEnvironment (props_application props) env]"
  have 1: "s' = s @ ?evs" using s' by simp
  have 2: "CfnEnvironment (scope @ [id', ''Resource'']) ?d \<in> set ?evs" by simp
  have 3: "cfn_monitors ?d = Some entries" by simp
  have 4: "\<forall>rp. Role (scope @ [id', ''Role'' @ string_of_nat i]) rp \<notin> set ?evs"
    using none by simp
  show ?thesis
    apply (rule exI [of _ ?evs])
    apply (rule exI [of _ ?d])
    apply (rule exI [of _ entries])
    by (insert 1 2 3 len e 4, intro conjI; assumption)
qed

theorem supplied_alarm_role_witness:
  "\<exists>evs d entries.
     snd (Environment sample [''App''] ''Env'' sample_props []) = evs
   \<and> CfnEnvironment [''App'', ''Env'', ''Resource''] d \<in> set evs
   \<and> cfn_monitors d = Some entries
   \<and> entries ! 1 = \<lparr>cfn_alarmArn = ''arn:aws:cloudwatch:us-east-1:123456789012:alarm:A2'',
                      cfn_alarmRoleArn = ''arn:aws:iam::123456789012:role/Mine''\<rparr>
   \<and> (\<forall>rp. Role [''App'', ''Env'', ''Role1''] rp \<notin> set evs)"
proof -
  from supplied_alarm_role [OF sample_Environment sample_props_monitors, of 1
      "\<lparr>roleArn = ''arn:aws:iam::123456789012:role/Mine''\<rparr>"]
  obtain evs d entries where
    "snd (Environment sample [''App''] ''Env'' sample_props []) = evs"
    "CfnEnvironment [''App'', ''Env'', ''Resource''] d \<in> set evs"
    "cfn_monitors d = Some entries"
    "entries ! 1 = \<lparr>cfn_alarmArn = ''arn:aws:cloudwatch:us-east-1:123456789012:alarm:A2'',
                      cfn_alarmRoleArn = ''arn:aws:iam::123456789012:role/Mine''\<rparr>"
    "\<forall>rp. Role [''App'', ''Env'', ''Role1''] rp \<notin> set evs"
    by (auto simp: sample_Environment string_of_nat_1)
  then show ?thesis by blast
qed

text \<open>
  The claim as written, for every monitor whose \<^verbatim>\<open>alarmRole\<close> is present, fails for a
  role whose \<open>roleArn\<close> is the empty string: \<^verbatim>\<open>monitor.alarmRole?.roleArn || ...\<close> then
  takes its right operand, so \<^verbatim>\<open>Role0\<close> is created and the entry carries the new
  role's ARN, not the supplied one.
\<close>

theorem supplied_alarm_role_counterexample:
  "snd (Environment sample [''App''] ''Env''
      \<lparr>props_name = Some ''prod'',
       props_description = None,
       props_monitors = Some
         [\<lparr>alarm = \<lparr>alarmArn = ''arn:aws:cloudwatch:us-east-1:123456789012:alarm:A1''\<rparr>,
           alarmRole = Some \<lparr>roleArn = ''''\<rparr>\<rparr>],
       props_application = \<lparr>app_applicationId = ''app1''\<rparr>\<rparr> []) ! 1 =
     Role [''App'', ''Env'', ''Role0'']
       \<lparr>roleName = GENERATE_IF_NEEDED,
        assumedBy = ServicePrincipal ''appconfig.amazonaws.com'',
        inlinePolicies =
          [(''AllowAppConfigMonitorAlarmPolicy'',
            \<lparr>statements =
               [\<lparr>effect = ALLOW,
                 actions = [''cloudwatch:DescribeAlarms''],
                 resources = [''arn:aws:cloudwatch:us-east-1:123456789012:alarm:A1'']\<rparr>]\<rparr>)]\<rparr>
 \<and> snd (Environment sample [''App''] ''Env''
      \<lparr>props_name = Some ''prod'',
       props_description = None,
       props_monitors = Some
         [\<lparr>alarm = \<lparr>alarmArn = ''arn:aws:cloudwatch:us-east-1:123456789012:alarm:A1''\<rparr>,
           alarmRole = Some \<lparr>roleArn = ''''\<rparr>\<rparr>],
       props_application = \<lparr>app_applicationId = ''app1''\<rparr>\<rparr> []) ! 2 =
     CfnEnvironment [''App'', ''Env'', ''Resource'']
       \<lparr>cfn_applicationId = ''app1'',
        cfn_name = ''prod'',
        cfn_description = None,
        cfn_monitors = Some
          [\<lparr>cfn_alarmArn = ''arn:aws:cloudwatch:us-east-1:123456789012:alarm:A1'',
            cfn_alarmRoleArn = ''arn:aws:iam::123456789012:role/App-Env-Role0''\<rparr>]\<rparr>"
  by (simp add: Environment_def Let_def and_then_def new_construct_def optional_monitors_map_def
      monitor_entry_def createAlarmRole_def string_of_nat_0
      sample_def sample_Stack_def sample_formatArn_def sample_construct_throws_def)

subsection \<open>The name\<close>















subsection \<open>The convenience wrappers\<close>

text \<open>
  Claim C8.  For each of the seven wrappers, every environment, event destination and
  options: the wrapper returns what the generic \<^verbatim>\<open>on\<close> returns for the wrapper's action
  point and the same arguments, the environment with its hook recorded, or the
  \<^verbatim>\<open>TypeError\<close> of an environment whose \<^verbatim>\<open>extensible\<close> was never assigned.
\<close>

theorem wrappers_call_on:
  "preCreateHostedConfigurationVersion this eventDestination options =
     on this PRE_CREATE_HOSTED_CONFIGURATION_VERSION eventDestination options
 \<and> preStartDeployment this eventDestination options =
     on this PRE_START_DEPLOYMENT eventDestination options
 \<and> onDeploymentStart this eventDestination options =
     on this ON_DEPLOYMENT_START eventDestination options
 \<and> onDeploymentStep this eventDestination options =
     on this ON_DEPLOYMENT_STEP eventDestination options
 \<and> onDeploymentBaking this eventDestination options =
     on this ON_DEPLOYMENT_BAKING eventDestination options
 \<and> onDeploymentComplete this eventDestination options =
     on this ON_DEPLOYMENT_COMPLETE eventDestination options
 \<and> onDeploymentRolledBack this eventDestination options =
     on this ON_DEPLOYMENT_ROLLED_BACK eventDestination options"
  by (simp add: on_def preCreateHostedConfigurationVersion_def preStartDeployment_def
      onDeploymentStart_def onDeploymentStep_def onDeploymentBaking_def
      onDeploymentComplete_def onDeploymentRolledBack_def
      ext_preCreateHostedConfigurationVersion_def ext_preStartDeployment_def
      ext_onDeploymentStart_def ext_onDeploymentStep_def ext_onDeploymentBaking_def
      ext_onDeploymentComplete_def ext_onDeploymentRolledBack_def)

theorem wrappers_call_on_witness:
  "onDeploymentBaking sample_environment (EventDestination ''arn:aws:sns:us-east-1:123456789012:topic'') None =
     Inr (sample_environment\<lparr>extensible := Some
        \<lparr>ext_scope = [''App''],
         ext_resourceArn =
           ''arn:aws:appconfig:us-east-1:123456789012:application/app1/environment/App.Env.Resource'',
         ext_resourceName = Some ''prod'',
         ext_hooks = [(ON_DEPLOYMENT_BAKING,
                       EventDestination ''arn:aws:sns:us-east-1:123456789012:topic'', None)],
         ext_extensions = []\<rparr>\<rparr>)
 \<and> preStartDeployment
       \<lparr>application = None, applicationId = ''app1'', name = None, description = None,
        monitors = None, environmentId = ''env1'',
        environmentArn =
          ''arn:aws:appconfig:us-east-1:123456789012:application/app1/environment/env1'',
        extensible = None\<rparr>
       (EventDestination ''arn:aws:sns:us-east-1:123456789012:topic'')
       (Some (ExtensionOptions ''options'')) = Inl TypeError"
proof -
  have "on sample_environment ON_DEPLOYMENT_BAKING
          (EventDestination ''arn:aws:sns:us-east-1:123456789012:topic'') None =
     Inr (sample_environment\<lparr>extensible := Some
        \<lparr>ext_scope = [''App''],
         ext_resourceArn =
           ''arn:aws:appconfig:us-east-1:123456789012:application/app1/environment/App.Env.Resource'',
         ext_resourceName = Some ''prod'',
         ext_hooks = [(ON_DEPLOYMENT_BAKING,
                       EventDestination ''arn:aws:sns:us-east-1:123456789012:topic'', None)],
         ext_extensions = []\<rparr>\<rparr>)"
    by (simp add: on_def this_extensible_def ext_on_def sample_environment_def)
  moreover have "on
       \<lparr>application = None, applicationId = ''app1'', name = None, description = None,
        monitors = None, environmentId = ''env1'',
        environmentArn =
          ''arn:aws:appconfig:us-east-1:123456789012:application/app1/environment/env1'',
        extensible = None\<rparr>
       PRE_START_DEPLOYMENT
       (EventDestination ''arn:aws:sns:us-east-1:123456789012:topic'')
       (Some (ExtensionOptions ''options'')) = Inl TypeError"
    by (simp add: on_def this_extensible_def)
  ultimately show ?thesis
    using wrappers_call_on [of sample_environment
        "EventDestination ''arn:aws:sns:us-east-1:123456789012:topic''" None]
      wrappers_call_on [of "\<lparr>application = None, applicationId = ''app1'', name = None, description = None,
        monitors = None, environmentId = ''env1'',
        environmentArn =
          ''arn:aws:appconfig:us-east-1:123456789012:application/app1/environment/env1'',
        extensible = None\<rparr>" "EventDestination ''arn:aws:sns:us-east-1:123456789012:topic''"
        "Some (ExtensionOptions ''options'')"]
    by simp
qed

end
